theory Spec2Isabelle
  imports Main
begin

section \<open>Values of the Python program\<close>

text \<open>
  The program is \<^verbatim>\<open>nxos_grpc/client.py\<close>, the class \<^verbatim>\<open>Client\<close>.
  A Python \<^verbatim>\<open>str\<close> is modelled as a \<^typ>\<open>string\<close>: a character stands for the code
  point of the same number, so the model covers the strings whose code points lie below 256.
  Every exception is a value of \<open>error\<close>; \<open>ValueError\<close> carries the argument tuple
  the exception was raised with.
\<close>

datatype error = ValueError "string list" | IOError string | RpcError string

text \<open>
  The values \<^verbatim>\<open>json.dumps\<close> receives from this program: strings and dictionaries
  keyed by strings. A dictionary is an association list in insertion order, which is the order
  in which Python 3.7 and later iterate and serialise it.
\<close>

datatype json = JStr string | JObj "(string \<times> json) list"

type_synonym pydict = "(string \<times> json) list"

text \<open>\<^verbatim>\<open>d[k] = v\<close>: an existing key keeps its position, a new key goes to the end.\<close>

fun dict_setitem :: "string \<Rightarrow> json \<Rightarrow> pydict \<Rightarrow> pydict" where
  "dict_setitem k v [] = [(k, v)]"
| "dict_setitem k v ((k', v') # d) =
     (if k' = k then (k, v) # d else (k', v') # dict_setitem k v d)"

text \<open>\<^verbatim>\<open>s.split(sep)\<close> for a one-character separator: never the empty list.\<close>

fun str_split :: "char \<Rightarrow> string \<Rightarrow> string list" where
  "str_split sep [] = [[]]"
| "str_split sep (c # cs) =
     (if c = sep then [] # str_split sep cs
      else (case str_split sep cs of
              [] \<Rightarrow> [[c]]
            | w # ws \<Rightarrow> (c # w) # ws))"

text \<open>\<^verbatim>\<open>sep.join(xs)\<close>.\<close>

fun str_join :: "string \<Rightarrow> string list \<Rightarrow> string" where
  "str_join sep [] = []"
| "str_join sep [x] = x"
| "str_join sep (x # y # ys) = x @ sep @ str_join sep (y # ys)"

subsection \<open>The serialiser \<^verbatim>\<open>json.dumps\<close> with its default arguments\<close>

text \<open>
  With \<^verbatim>\<open>ensure_ascii=True\<close> every character outside the range from space to tilde, the
  double quote and the backslash are escaped; the item separator is a comma and a space, the
  key separator a colon and a space.
\<close>

definition hex_digit :: "nat \<Rightarrow> char" where
  "hex_digit n = (''0123456789abcdef'' ! (n mod 16))"

definition escape_char :: "char \<Rightarrow> string" where
  "escape_char c =
    (if c = CHR 0x5C then [CHR 0x5C, CHR 0x5C]
     else if c = CHR 0x22 then [CHR 0x5C, CHR 0x22]
     else if c = CHR 0x08 then [CHR 0x5C, CHR ''b'']
     else if c = CHR 0x0C then [CHR 0x5C, CHR ''f'']
     else if c = CHR 0x0A then [CHR 0x5C, CHR ''n'']
     else if c = CHR 0x0D then [CHR 0x5C, CHR ''r'']
     else if c = CHR 0x09 then [CHR 0x5C, CHR ''t'']
     else if (of_char c :: nat) < 0x20 \<or> 0x7E < (of_char c :: nat)
       then [CHR 0x5C, CHR ''u'', CHR ''0'', CHR ''0'',
             hex_digit (of_char c div 16), hex_digit (of_char c)]
     else [c])"

definition encode_str :: "string \<Rightarrow> string" where
  "encode_str s = [CHR 0x22] @ concat (map escape_char s) @ [CHR 0x22]"

fun json_dumps :: "json \<Rightarrow> string" where
  "json_dumps (JStr s) = encode_str s"
| "json_dumps (JObj kvs) =
     ''{'' @ str_join '', ''
               (map (\<lambda>(k, v). encode_str k @ '': '' @ json_dumps v) kvs) @ ''}''"

section \<open>PathCompiler: \<^verbatim>\<open>Client.__parse_xpath_to_json\<close>\<close>

text \<open>
  One iteration of the loop over \<^verbatim>\<open>reversed(xpath_split)\<close>; the loop state is the
  dictionary \<^verbatim>\<open>xpath_dict\<close> and the flag \<^verbatim>\<open>first\<close>.
\<close>

fun xpath_step :: "pydict \<times> bool \<Rightarrow> string \<Rightarrow> pydict \<times> bool" where
  "xpath_step (xpath_dict, first) element =
     (if first then (dict_setitem element (JObj []) xpath_dict, False)
      else ([(element, JObj xpath_dict)], first))"

text \<open>The dictionary handed to \<^verbatim>\<open>json.dumps\<close>, for a namespace that passed the guard.\<close>

definition xpath_dict_of :: "string \<Rightarrow> string \<Rightarrow> pydict" where
  "xpath_dict_of xpath namespace =
     (let xpath_split = str_split CHR ''/'' xpath;
          (xpath_dict, first) = foldl xpath_step ([], True) (rev xpath_split)
      in dict_setitem ''namespace'' (JStr namespace) xpath_dict)"

text \<open>
  The namespace is \<open>None\<close> for Python's \<^verbatim>\<open>None\<close>; \<^verbatim>\<open>not namespace\<close> holds for
  \<^verbatim>\<open>None\<close> and for the empty string.
\<close>

definition parse_xpath_to_json :: "string \<Rightarrow> string option \<Rightarrow> error + string" where
  "parse_xpath_to_json xpath namespace =
     (case namespace of
        None \<Rightarrow> Inl (ValueError [''Must include namespace if constructing from xpath!''])
      | Some ns \<Rightarrow>
          if ns = []
          then Inl (ValueError [''Must include namespace if constructing from xpath!''])
          else Inr (json_dumps (JObj (xpath_dict_of xpath ns))))"

text \<open>
  The container hierarchy as the specification words it: the last element maps to an empty
  object, each element before it has the mapping built so far as its sole value, and the
  namespace entry stands beside the outermost container key.
\<close>

fun nest_containers :: "string list \<Rightarrow> json" where
  "nest_containers [] = JObj []"
| "nest_containers (e # es) = JObj [(e, nest_containers es)]"

definition compiled_path_spec :: "string \<Rightarrow> string \<Rightarrow> json" where
  "compiled_path_spec xpath namespace =
     (case nest_containers (str_split CHR ''/'' xpath) of
        JObj d \<Rightarrow> JObj (d @ [(''namespace'', JStr namespace)])
      | JStr s \<Rightarrow> JStr s)"

section \<open>ArgValidator: \<^verbatim>\<open>Client.__validate_enum_arg\<close>\<close>

text \<open>
  \<open>valid_options\<close> is a Python set; the list holds its members in the order in which the set
  is iterated, which only the text of the default message depends on. \<^verbatim>\<open>not message\<close>
  holds for \<^verbatim>\<open>None\<close> and for the empty string.
\<close>

definition validate_enum_arg :: "string \<Rightarrow> string list \<Rightarrow> string option \<Rightarrow> error + unit" where
  "validate_enum_arg name valid_options message =
     (if name \<notin> set valid_options then
        Inl (ValueError
          [case message of
             None \<Rightarrow> name @ '' must be one of '' @ str_join '', '' valid_options
           | Some m \<Rightarrow>
               if m = [] then name @ '' must be one of '' @ str_join '', '' valid_options
               else m])
      else Inr ())"

section \<open>The collaborators outside the file\<close>

text \<open>
  The \<^verbatim>\<open>grpc\<close> package is a library. Its three functions that \<^verbatim>\<open>__gen_client\<close>
  calls are kept as constructors: a channel records how it was opened.
\<close>

datatype channel_credentials = ssl_channel_credentials string

datatype channel =
    insecure_channel string
  | secure_channel string channel_credentials "(string \<times> string) list option"

text \<open>
  Modelled from the spec: the generated module \<^verbatim>\<open>proto\<close>, which is not among the
  sources. The stub is bound to a channel and has one method per operation; an argument
  message is the value object of the fields its operation needs, here in the order in which
  \<^verbatim>\<open>client.py\<close> writes the keyword arguments.
\<close>

datatype stub = gRPCConfigOperStub channel

datatype request_args =
    GetOperArgs int string
  | GetArgs int string
  | GetConfigArgs int string string
  | EditConfigArgs string string int int string string string
  | SessionArgs int
  | CloseSessionArgs int int
  | KillArgs int int int

text \<open>The attribute \<^verbatim>\<open>ReqID\<close> of an argument message.\<close>

fun ReqID :: "request_args \<Rightarrow> int" where
  "ReqID (GetOperArgs req_id yang_path) = req_id"
| "ReqID (GetArgs req_id yang_path) = req_id"
| "ReqID (GetConfigArgs req_id source yang_path) = req_id"
| "ReqID (EditConfigArgs yang_path operation session_id req_id target def_op error_op) = req_id"
| "ReqID (SessionArgs req_id) = req_id"
| "ReqID (CloseSessionArgs req_id session_id) = req_id"
| "ReqID (KillArgs req_id session_id session_id_to_kill) = req_id"

text \<open>The attribute \<^verbatim>\<open>YangPath\<close>, for the messages that have one.\<close>

fun YangPath :: "request_args \<Rightarrow> string option" where
  "YangPath (GetOperArgs req_id yang_path) = Some yang_path"
| "YangPath (GetArgs req_id yang_path) = Some yang_path"
| "YangPath (GetConfigArgs req_id source yang_path) = Some yang_path"
| "YangPath (EditConfigArgs yang_path operation session_id req_id target def_op error_op) =
     Some yang_path"
| "YangPath (SessionArgs req_id) = None"
| "YangPath (CloseSessionArgs req_id session_id) = None"
| "YangPath (KillArgs req_id session_id session_id_to_kill) = None"

text \<open>The methods of the stub, and one invocation of a method as the transport sees it.\<close>

datatype rpc_method =
  GetOper | Get | GetConfig | EditConfig | StartSession | CloseSession | KillSession

record rpc_call =
  call_stub :: stub
  call_method :: rpc_method
  call_args :: request_args
  call_timeout :: int
  call_metadata :: "(string \<times> string) list"

text \<open>
  What lies behind the program: \<open>rpc\<close> answers an invocation with a raw reply or raises, and
  may depend on the invocations made before it; \<open>build_response\<close> is the function of that
  name in the module \<^verbatim>\<open>response\<close>, which is not among the sources. Both are parameters
  of the model. The state threaded through the public operations is the list of invocations
  that reached the transport.
\<close>

record ('reply, 'response) externals =
  rpc :: "rpc_call list \<Rightarrow> rpc_call \<Rightarrow> error + 'reply"
  build_response :: "int \<Rightarrow> 'reply \<Rightarrow> 'response"

text \<open>
  A keyword parameter that has a default is an option: \<open>None\<close> when the caller omits the
  argument. The parameters whose default is Python's \<^verbatim>\<open>None\<close> are options as they are.
\<close>

definition or_default :: "'a option \<Rightarrow> 'a \<Rightarrow> 'a" where
  "or_default argument default_value =
     (case argument of None \<Rightarrow> default_value | Some v \<Rightarrow> v)"

section \<open>The \<^verbatim>\<open>Client\<close> object\<close>

text \<open>
  The attributes set by \<^verbatim>\<open>__init__\<close>; the private ones are \<^verbatim>\<open>__target\<close>,
  \<^verbatim>\<open>__credentials\<close>, \<^verbatim>\<open>__options\<close> and \<^verbatim>\<open>__client\<close>.
\<close>

record client =
  self_username :: string
  self_password :: string
  self_timeout :: int
  self_target :: string
  self_credentials :: "string option"
  self_options :: "(string \<times> string) list"
  self_client :: stub

definition C_MAX_LONG :: int where
  "C_MAX_LONG = 2147483647"

subsection \<open>CredentialLoader: \<^verbatim>\<open>__gen_credentials\<close> and \<^verbatim>\<open>__gen_options\<close>\<close>

text \<open>
  The file system is a map from a path to the contents of the file; \<^verbatim>\<open>open\<close> raises
  where the map has no entry.
\<close>

definition gen_credentials ::
  "(string \<rightharpoonup> string) \<Rightarrow> string option \<Rightarrow> bool \<Rightarrow> error + string option" where
  "gen_credentials fs credentials credentials_from_file =
     (case credentials of
        None \<Rightarrow> Inr None
      | Some creds \<Rightarrow>
          if creds = [] then Inr None
          else if credentials_from_file then
            (case fs creds of
               None \<Rightarrow> Inl (IOError creds)
             | Some contents \<Rightarrow> Inr (Some contents))
          else Inr (Some creds))"

definition gen_options :: "string option \<Rightarrow> (string \<times> string) list" where
  "gen_options tls_server_override =
     (case tls_server_override of
        None \<Rightarrow> []
      | Some name \<Rightarrow>
          if name = [] then [] else [(''grpc.ssl_target_name_override'', name)])"

subsection \<open>ClientFactory: \<^verbatim>\<open>__gen_client\<close>\<close>

definition gen_client ::
  "string \<Rightarrow> string option \<Rightarrow> (string \<times> string) list option \<Rightarrow> stub" where
  "gen_client target credentials options =
     (case credentials of
        None \<Rightarrow> gRPCConfigOperStub (insecure_channel target)
      | Some creds \<Rightarrow>
          if creds = [] then gRPCConfigOperStub (insecure_channel target)
          else gRPCConfigOperStub
                 (secure_channel target (ssl_channel_credentials creds) options))"

section \<open>RequestDispatcher: \<^verbatim>\<open>__gen_metadata\<close> and \<^verbatim>\<open>__fulfill_request\<close>\<close>

definition gen_metadata :: "client \<Rightarrow> (string \<times> string) list" where
  "gen_metadata self = [(''username'', self_username self), (''password'', self_password self)]"

text \<open>
  The invocation is appended to the list whether the transport answers or raises; the
  response builder runs on an answer only.
\<close>

definition fulfill_request ::
  "('reply, 'response) externals \<Rightarrow> client \<Rightarrow> rpc_method \<Rightarrow> request_args \<Rightarrow>
     rpc_call list \<Rightarrow> (error + 'response) \<times> rpc_call list" where
  "fulfill_request ext self request_method request_args calls =
     (let req_id = ReqID request_args;
          call = \<lparr>call_stub = self_client self, call_method = request_method,
                  call_args = request_args, call_timeout = self_timeout self,
                  call_metadata = gen_metadata self\<rparr>
      in case rpc ext calls call of
           Inl e \<Rightarrow> (Inl e, calls @ [call])
         | Inr reply \<Rightarrow> (Inr (build_response ext req_id reply), calls @ [call]))"

text \<open>
  The dispatch as the specification words it: the method is invoked with the arguments, the
  timeout of the client and the metadata pair list of user name and password; the request
  identifier of the arguments and the raw reply go to the response builder, whose result is
  returned as it is; an error of the transport is the result when it raises.
\<close>

definition dispatch_contract ::
  "('reply, 'response) externals \<Rightarrow> client \<Rightarrow> rpc_method \<Rightarrow> request_args \<Rightarrow>
     rpc_call list \<Rightarrow> (error + 'response) \<times> rpc_call list" where
  "dispatch_contract ext self request_method request_args calls =
     (let call = \<lparr>call_stub = self_client self, call_method = request_method,
                  call_args = request_args, call_timeout = self_timeout self,
                  call_metadata = [(''username'', self_username self),
                                   (''password'', self_password self)]\<rparr>
      in (case rpc ext calls call of
            Inl e \<Rightarrow> Inl e
          | Inr reply \<Rightarrow> Inr (build_response ext (ReqID request_args) reply),
          calls @ [call]))"

section \<open>The public operations\<close>

text \<open>
  The step shared by \<^verbatim>\<open>get\<close>, \<^verbatim>\<open>get_oper\<close> and \<^verbatim>\<open>get_config\<close>: the path is
  compiled unless the caller says that it is a payload already.
\<close>

definition payload_of :: "string \<Rightarrow> string option \<Rightarrow> bool \<Rightarrow> error + string" where
  "payload_of yang_path namespace path_is_payload =
     (if \<not> path_is_payload then parse_xpath_to_json yang_path namespace else Inr yang_path)"

definition get_oper ::
  "('reply, 'response) externals \<Rightarrow> client \<Rightarrow> string \<Rightarrow> string option \<Rightarrow> int option \<Rightarrow>
     bool option \<Rightarrow> rpc_call list \<Rightarrow> (error + 'response) \<times> rpc_call list" where
  "get_oper ext self yang_path namespace request_id path_is_payload calls =
     (case payload_of yang_path namespace (or_default path_is_payload False) of
        Inl e \<Rightarrow> (Inl e, calls)
      | Inr payload \<Rightarrow>
          fulfill_request ext self GetOper
            (GetOperArgs (or_default request_id 0) payload) calls)"

definition get ::
  "('reply, 'response) externals \<Rightarrow> client \<Rightarrow> string \<Rightarrow> string option \<Rightarrow> int option \<Rightarrow>
     bool option \<Rightarrow> rpc_call list \<Rightarrow> (error + 'response) \<times> rpc_call list" where
  "get ext self yang_path namespace request_id path_is_payload calls =
     (case payload_of yang_path namespace (or_default path_is_payload False) of
        Inl e \<Rightarrow> (Inl e, calls)
      | Inr payload \<Rightarrow>
          fulfill_request ext self Get
            (GetArgs (or_default request_id 0) payload) calls)"

definition get_config ::
  "('reply, 'response) externals \<Rightarrow> client \<Rightarrow> string \<Rightarrow> string option \<Rightarrow> int option \<Rightarrow>
     string option \<Rightarrow> bool option \<Rightarrow> rpc_call list \<Rightarrow>
     (error + 'response) \<times> rpc_call list" where
  "get_config ext self yang_path namespace request_id source path_is_payload calls =
     (case validate_enum_arg (or_default source ''running'') [''running''] None of
        Inl e \<Rightarrow> (Inl e, calls)
      | Inr u \<Rightarrow>
          (case payload_of yang_path namespace (or_default path_is_payload False) of
             Inl e \<Rightarrow> (Inl e, calls)
           | Inr payload \<Rightarrow>
               fulfill_request ext self GetConfig
                 (GetConfigArgs (or_default request_id 0) (or_default source ''running'')
                    payload) calls))"

text \<open>
  The allowed sets of \<^verbatim>\<open>edit_config\<close>, in the order of the source text. Python
  iterates a set of strings in an order that varies from run to run; only the wording of the
  validator's default message depends on the order.
\<close>

definition operation_options :: "string list" where
  "operation_options = [''merge'', ''create'', ''replace'', ''delete'', ''remove'']"

definition default_operation_options :: "string list" where
  "default_operation_options = [''merge'', ''replace'', ''none'']"

definition target_options :: "string list" where
  "target_options = [''running'']"

definition error_operation_options :: "string list" where
  "error_operation_options = [''roll-back'', ''stop'', ''continue'']"

definition edit_config ::
  "('reply, 'response) externals \<Rightarrow> client \<Rightarrow> string \<Rightarrow> string option \<Rightarrow> string option \<Rightarrow>
     int option \<Rightarrow> int option \<Rightarrow> string option \<Rightarrow> string option \<Rightarrow> rpc_call list \<Rightarrow>
     (error + 'response) \<times> rpc_call list" where
  "edit_config ext self yang_path operation default_operation session_id request_id target
       error_operation calls =
     (case validate_enum_arg (or_default operation ''merge'') operation_options None of
        Inl e \<Rightarrow> (Inl e, calls)
      | Inr u1 \<Rightarrow>
     (case validate_enum_arg (or_default default_operation ''merge'')
             default_operation_options None of
        Inl e \<Rightarrow> (Inl e, calls)
      | Inr u2 \<Rightarrow>
     (case validate_enum_arg (or_default target ''running'') target_options None of
        Inl e \<Rightarrow> (Inl e, calls)
      | Inr u3 \<Rightarrow>
     (case validate_enum_arg (or_default error_operation ''roll-back'')
             error_operation_options None of
        Inl e \<Rightarrow> (Inl e, calls)
      | Inr u4 \<Rightarrow>
          fulfill_request ext self EditConfig
            (EditConfigArgs yang_path (or_default operation ''merge'')
               (or_default session_id 0) (or_default request_id 0)
               (or_default target ''running'') (or_default default_operation ''merge'')
               (or_default error_operation ''roll-back'')) calls))))"

definition start_session ::
  "('reply, 'response) externals \<Rightarrow> client \<Rightarrow> int option \<Rightarrow> rpc_call list \<Rightarrow>
     (error + 'response) \<times> rpc_call list" where
  "start_session ext self request_id calls =
     fulfill_request ext self StartSession (SessionArgs (or_default request_id 0)) calls"

definition close_session ::
  "('reply, 'response) externals \<Rightarrow> client \<Rightarrow> int \<Rightarrow> int option \<Rightarrow> rpc_call list \<Rightarrow>
     (error + 'response) \<times> rpc_call list" where
  "close_session ext self session_id request_id calls =
     fulfill_request ext self CloseSession
       (CloseSessionArgs (or_default request_id 0) session_id) calls"

definition kill_session ::
  "('reply, 'response) externals \<Rightarrow> client \<Rightarrow> int \<Rightarrow> int \<Rightarrow> int option \<Rightarrow> rpc_call list \<Rightarrow>
     (error + 'response) \<times> rpc_call list" where
  "kill_session ext self session_id session_id_to_kill request_id calls =
     fulfill_request ext self KillSession
       (KillArgs (or_default request_id 0) session_id session_id_to_kill) calls"

section \<open>The standard library behind the TargetResolver\<close>

text \<open>
  \<^verbatim>\<open>__gen_target\<close> calls \<^verbatim>\<open>urllib.parse.urlparse\<close> and reads the attributes
  \<^verbatim>\<open>scheme\<close>, \<^verbatim>\<open>netloc\<close>, \<^verbatim>\<open>hostname\<close> and \<^verbatim>\<open>port\<close> of the result. The
  model follows the library of CPython 3.8, the release current when the program was written,
  for these four attributes. The check of the authority under NFKC normalisation is left out:
  it looks for the characters \<^verbatim>\<open>/?#@:\<close> in the normal form, and no code point below
  256 has one of them in its normal form unless it is that character.
\<close>

text \<open>\<^verbatim>\<open>sub in s\<close>, \<^verbatim>\<open>s.find(c)\<close>, \<^verbatim>\<open>s.partition(c)\<close> and \<^verbatim>\<open>s.rpartition(c)\<close>.\<close>

fun str_contains :: "string \<Rightarrow> string \<Rightarrow> bool" where
  "str_contains sub [] = (sub = [])"
| "str_contains sub (c # cs) = (take (length sub) (c # cs) = sub \<or> str_contains sub cs)"

definition str_find :: "char \<Rightarrow> string \<Rightarrow> nat option" where
  "str_find c s = (if c \<in> set s then Some (length (takeWhile (\<lambda>x. x \<noteq> c) s)) else None)"

definition str_partition :: "char \<Rightarrow> string \<Rightarrow> string \<times> string \<times> string" where
  "str_partition sep s =
     (if sep \<in> set s
      then (takeWhile (\<lambda>x. x \<noteq> sep) s, [sep], drop 1 (dropWhile (\<lambda>x. x \<noteq> sep) s))
      else (s, [], []))"

definition str_rpartition :: "char \<Rightarrow> string \<Rightarrow> string \<times> string \<times> string" where
  "str_rpartition sep s =
     (if sep \<in> set s
      then (rev (drop 1 (dropWhile (\<lambda>x. x \<noteq> sep) (rev s))), [sep],
            rev (takeWhile (\<lambda>x. x \<noteq> sep) (rev s)))
      else ([], [], s))"

text \<open>
  \<^verbatim>\<open>s.lower()\<close> on code points below 256: the letters A to Z and the accented capitals
  from 0xC0 to 0xDE, the multiplication sign 0xD7 apart, move up by 0x20.
\<close>

definition lower_char :: "char \<Rightarrow> char" where
  "lower_char c =
     (let n = (of_char c :: nat)
      in if (0x41 \<le> n \<and> n \<le> 0x5A) \<or> (0xC0 \<le> n \<and> n \<le> 0xDE \<and> n \<noteq> 0xD7)
         then char_of (n + 0x20) else c)"

definition str_lower :: "string \<Rightarrow> string" where
  "str_lower s = map lower_char s"

definition is_digit :: "char \<Rightarrow> bool" where
  "is_digit c = (c \<in> set ''0123456789'')"

subsection \<open>\<^verbatim>\<open>urlsplit\<close>: the scheme and the authority\<close>

definition scheme_chars :: string where
  "scheme_chars = ''abcdefghijklmnopqrstuvwxyzABCDEFGHIJKLMNOPQRSTUVWXYZ0123456789+-.''"

definition netloc_delims :: string where
  "netloc_delims = ''/?#''"

record split_result =
  scheme :: string
  netloc :: string

text \<open>\<^verbatim>\<open>_splitnetloc\<close>: the authority runs up to the earliest delimiter.\<close>

definition splitnetloc :: "string \<Rightarrow> nat \<Rightarrow> string \<times> string" where
  "splitnetloc url start =
     (let rest = drop start url
      in (takeWhile (\<lambda>c. c \<notin> set netloc_delims) rest,
          dropWhile (\<lambda>c. c \<notin> set netloc_delims) rest))"

text \<open>
  The text before the first colon is a scheme when it is not empty, consists of scheme
  characters, and what follows the colon is not a port number.
\<close>

definition split_scheme :: "string \<Rightarrow> string \<times> string" where
  "split_scheme url =
     (case str_find CHR '':'' url of
        None \<Rightarrow> ([], url)
      | Some i \<Rightarrow>
          if 0 < i then
            if take i url = ''http'' then (''http'', drop (i + 1) url)
            else if list_all (\<lambda>c. c \<in> set scheme_chars) (take i url) then
              (let rest = drop (i + 1) url
               in if rest = [] \<or> list_ex (\<lambda>c. \<not> is_digit c) rest
                  then (str_lower (take i url), rest) else ([], url))
            else ([], url)
          else ([], url))"

definition urlparse :: "string \<Rightarrow> error + split_result" where
  "urlparse url0 =
     (let (scheme, url) = split_scheme url0;
          netloc = (if take 2 url = ''//'' then fst (splitnetloc url 2) else [])
      in if (CHR ''['' \<in> set netloc \<and> CHR '']'' \<notin> set netloc) \<or>
            (CHR '']'' \<in> set netloc \<and> CHR ''['' \<notin> set netloc)
         then Inl (ValueError [''Invalid IPv6 URL''])
         else Inr \<lparr>scheme = scheme, netloc = netloc\<rparr>)"

subsection \<open>The attributes \<^verbatim>\<open>hostname\<close> and \<^verbatim>\<open>port\<close>\<close>

text \<open>\<^verbatim>\<open>_hostinfo\<close>: the host and the text of the port, \<open>None\<close> for an empty text.\<close>

definition hostinfo :: "split_result \<Rightarrow> string \<times> string option" where
  "hostinfo r =
     (let (u, have_at, hostinfo) = str_rpartition CHR ''@'' (netloc r);
          (b, have_open_br, bracketed) = str_partition CHR ''['' hostinfo;
          (hostname, port) =
            (if have_open_br \<noteq> [] then
               (let (hostname, s, port) = str_partition CHR '']'' bracketed;
                    (p, s', port) = str_partition CHR '':'' port
                in (hostname, port))
             else
               (let (hostname, s, port) = str_partition CHR '':'' hostinfo
                in (hostname, port)))
      in (hostname, if port = [] then None else Some port))"

definition hostname :: "split_result \<Rightarrow> string option" where
  "hostname r =
     (let hostname = fst (hostinfo r)
      in if hostname = [] then None
         else (let (hostname, percent, zone) = str_partition CHR ''%'' hostname
               in Some (str_lower hostname @ percent @ zone)))"

text \<open>
  \<^verbatim>\<open>int(port, 10)\<close>: white space around the number is dropped, one sign is allowed, and
  single underscores may stand between digits. The message of the error is abridged: it does
  not repeat the text of the port.
\<close>

definition digit_val :: "char \<Rightarrow> nat" where
  "digit_val c = of_char c - 48"

fun digits_value :: "nat \<Rightarrow> string \<Rightarrow> nat option" where
  "digits_value acc [] = Some acc"
| "digits_value acc (c # cs) =
     (if is_digit c then digits_value (10 * acc + digit_val c) cs
      else if c = CHR ''_'' then
        (case cs of
           [] \<Rightarrow> None
         | d # ds \<Rightarrow> if is_digit d then digits_value acc cs else None)
      else None)"

definition is_space :: "char \<Rightarrow> bool" where
  "is_space c = ((of_char c :: nat) \<in> {0x09, 0x0A, 0x0B, 0x0C, 0x0D, 0x20, 0x85, 0xA0})"

definition str_strip :: "string \<Rightarrow> string" where
  "str_strip s = rev (dropWhile is_space (rev (dropWhile is_space s)))"

definition split_sign :: "string \<Rightarrow> bool \<times> string" where
  "split_sign t =
     (case t of
        [] \<Rightarrow> (False, [])
      | c # cs \<Rightarrow> if c = CHR ''-'' then (True, cs)
                else if c = CHR ''+'' then (False, cs) else (False, t))"

definition int_base10 :: "string \<Rightarrow> int option" where
  "int_base10 s =
     (let (neg, body) = split_sign (str_strip s)
      in case body of
           [] \<Rightarrow> None
         | c # cs \<Rightarrow>
             if is_digit c then
               (case digits_value 0 body of
                  None \<Rightarrow> None
                | Some n \<Rightarrow> Some (if neg then - int n else int n))
             else None)"

definition port :: "split_result \<Rightarrow> error + int option" where
  "port r =
     (case snd (hostinfo r) of
        None \<Rightarrow> Inr None
      | Some port \<Rightarrow>
          (case int_base10 port of
             None \<Rightarrow> Inl (ValueError [''Port could not be cast to integer value''])
           | Some port \<Rightarrow>
               if \<not> (0 \<le> port \<and> port \<le> 65535)
               then Inl (ValueError [''Port out of range 0-65535''])
               else Inr (Some port)))"

text \<open>The conversions \<^verbatim>\<open>%s\<close> of a string or \<^verbatim>\<open>None\<close> and \<^verbatim>\<open>%i\<close> of an integer.\<close>

fun show_nat :: "nat \<Rightarrow> string" where
  "show_nat n =
     (if n < 10 then [''0123456789'' ! n]
      else show_nat (n div 10) @ [''0123456789'' ! (n mod 10)])"

definition show_int :: "int \<Rightarrow> string" where
  "show_int i = (if i < 0 then ''-'' @ show_nat (nat (- i)) else show_nat (nat i))"

definition str_of_optional :: "string option \<Rightarrow> string" where
  "str_of_optional s = (case s of None \<Rightarrow> ''None'' | Some v \<Rightarrow> v)"

section \<open>TargetResolver: \<^verbatim>\<open>Client.__gen_target\<close>\<close>

text \<open>
  The keyword parameters \<^verbatim>\<open>netloc_prefix\<close> and \<^verbatim>\<open>default_port\<close> are never passed:
  the constructor and the recursive call both leave them at their defaults.
\<close>

definition netloc_prefix :: string where
  "netloc_prefix = ''//''"

definition default_port :: int where
  "default_port = 50051"

text \<open>The target handed to \<^verbatim>\<open>urlparse\<close>, and the target reassembled with the default port.\<close>

definition add_netloc_prefix :: "string \<Rightarrow> string" where
  "add_netloc_prefix target =
     (if \<not> str_contains netloc_prefix target then netloc_prefix @ target else target)"

definition ported_target :: "split_result \<Rightarrow> string" where
  "ported_target parsed_target =
     str_of_optional (hostname parsed_target) @ '':'' @ show_int default_port"

text \<open>
  The resolver itself. Each error of the library ends it; a target with an authority and no
  port is reassembled and resolved again.
\<close>

function gen_target :: "string \<Rightarrow> error + string" where
  "gen_target target =
     (case urlparse (add_netloc_prefix target) of
        Inl e \<Rightarrow> Inl e
      | Inr parsed_target \<Rightarrow>
          if netloc parsed_target = []
          then Inl (ValueError [''Unable to parse netloc from target URL %s!'',
                                add_netloc_prefix target])
          else (case port parsed_target of
                  Inl e \<Rightarrow> Inl e
                | Inr None \<Rightarrow> gen_target (ported_target parsed_target)
                | Inr (Some p) \<Rightarrow> Inr (netloc parsed_target)))"
  by pat_completeness auto

section \<open>\<^verbatim>\<open>Client.__init__\<close>\<close>

text \<open>
  The timeout is a Python integer, on which \<^verbatim>\<open>int\<close> is the identity. The first step
  that raises ends the construction: the target is resolved before the credentials are read.
\<close>

definition init ::
  "(string \<rightharpoonup> string) \<Rightarrow> string \<Rightarrow> string \<Rightarrow> string \<Rightarrow> int option \<Rightarrow> string option \<Rightarrow>
     bool option \<Rightarrow> string option \<Rightarrow> error + client" where
  "init fs target username password timeout credentials credentials_from_file
       tls_server_override =
     (case gen_target target of
        Inl e \<Rightarrow> Inl e
      | Inr resolved \<Rightarrow>
          (case gen_credentials fs credentials (or_default credentials_from_file False) of
             Inl e \<Rightarrow> Inl e
           | Inr creds \<Rightarrow>
               Inr \<lparr>self_username = username, self_password = password,
                    self_timeout = or_default timeout C_MAX_LONG,
                    self_target = resolved, self_credentials = creds,
                    self_options = gen_options tls_server_override,
                    self_client = gen_client resolved creds
                                    (Some (gen_options tls_server_override))\<rparr>))"

section \<open>Notions for the proofs\<close>

text \<open>
  The recursion of \<^verbatim>\<open>__gen_target\<close> is taken when the parsed target has an authority and
  no port. A reassembled target never takes it again, which is the termination argument of
  the function.
\<close>

definition needs_port :: "string \<Rightarrow> bool" where
  "needs_port target =
     (case urlparse (add_netloc_prefix target) of
        Inl e \<Rightarrow> False
      | Inr parsed_target \<Rightarrow> netloc parsed_target \<noteq> [] \<and> port parsed_target = Inr None)"

text \<open>
  The authority without the user information, and the characters that a host name cut from a
  parsed authority can have.
\<close>

definition after_userinfo :: "string \<Rightarrow> string" where
  "after_userinfo n = rev (takeWhile (\<lambda>x. x \<noteq> CHR ''@'') (rev n))"

definition host_chars_ok :: "string \<Rightarrow> bool" where
  "host_chars_ok h \<longleftrightarrow>
     set h \<inter> set netloc_delims = {} \<and> CHR ''@'' \<notin> set h \<and>
     \<not> (CHR ''['' \<in> set h \<and> CHR '']'' \<in> set h)"

section \<open>Termination of the TargetResolver\<close>

subsection \<open>Facts about the library functions\<close>

lemma show_default_port: "show_int default_port = ''50051''"
  by (simp add: show_int_def default_port_def)

lemma takeWhile_neq_id: "c \<notin> set s \<Longrightarrow> takeWhile (\<lambda>x. x \<noteq> c) s = s"
  by (induction s) auto

lemma dropWhile_neq_Nil: "c \<notin> set s \<Longrightarrow> dropWhile (\<lambda>x. x \<noteq> c) s = []"
  by (induction s) auto

lemma dropWhile_neq_Cons: "c \<in> set s \<Longrightarrow> \<exists>t. dropWhile (\<lambda>x. x \<noteq> c) s = c # t"
  by (induction s) auto

lemma set_takeWhile_subset: "set (takeWhile P xs) \<subseteq> set xs"
  by (meson set_takeWhileD subsetI)

lemma set_drop_dropWhile_subset: "set (drop n (dropWhile P xs)) \<subseteq> set xs"
  by (meson in_set_dropD set_dropWhileD subsetI)

lemma lower_char_special_eq:
  assumes "s \<in> set ''/?#@[]:''"
  shows "lower_char c = s \<longleftrightarrow> c = s"
proof -
  have "lower_char c = c \<or>
      (0x61 \<le> (of_char (lower_char c) :: nat) \<and>
       (of_char c :: nat) \<noteq> of_char (lower_char c) \<and>
       (0x41 \<le> (of_char c :: nat) \<and> (of_char c :: nat) \<le> 0x5A \<or>
        0xC0 \<le> (of_char c :: nat)))"
    using nat_of_char_less_256 [of c]
    by (auto simp: lower_char_def Let_def)
  with assms show ?thesis
    by (elim disjE) auto
qed

lemma str_lower_special:
  assumes "s \<in> set ''/?#@[]:''"
  shows "s \<in> set (str_lower a) \<longleftrightarrow> s \<in> set a"
proof -
  have "\<And>c. lower_char c = s \<longleftrightarrow> c = s"
    by (rule lower_char_special_eq [OF assms])
  then show ?thesis
    unfolding str_lower_def set_map image_iff by metis
qed

lemma str_contains_slashes: "str_contains ''//'' s \<Longrightarrow> CHR ''/'' \<in> set s"
  by (induction s) (auto simp: take_Cons' split: if_splits)

lemma str_partition_alt:
  "str_partition c s =
     (takeWhile (\<lambda>x. x \<noteq> c) s, if c \<in> set s then [c] else [],
      drop 1 (dropWhile (\<lambda>x. x \<noteq> c) s))"
  by (simp add: str_partition_def takeWhile_neq_id dropWhile_neq_Nil)

lemma str_partition_concat:
  assumes "str_partition c s = (a, p, z)"
  shows "s = a @ p @ z"
proof (cases "c \<in> set s")
  case True
  from dropWhile_neq_Cons [OF this]
  obtain t where "dropWhile (\<lambda>x. x \<noteq> c) s = c # t" ..
  with assms True show ?thesis
    using takeWhile_dropWhile_id [of "\<lambda>x. x \<noteq> c" s]
    by (auto simp: str_partition_def)
next
  case False
  with assms show ?thesis by (auto simp: str_partition_def)
qed

lemma str_rpartition_last:
  "snd (snd (str_rpartition c s)) = rev (takeWhile (\<lambda>x. x \<noteq> c) (rev s))"
  by (simp add: str_rpartition_def takeWhile_neq_id)

lemma split_scheme_slash: "split_scheme (CHR ''/'' # u) = ([], CHR ''/'' # u)"
  by (auto simp: split_scheme_def str_find_def scheme_chars_def take_Cons' split: option.splits)

lemma urlparse_netloc_chars:
  assumes "urlparse u = Inr r"
  shows "set (netloc r) \<inter> set netloc_delims = {}"
proof -
  obtain s v where sv: "split_scheme u = (s, v)" by (cases "split_scheme u")
  have "set (takeWhile (\<lambda>c. c \<notin> set netloc_delims) (drop 2 v)) \<inter> set netloc_delims = {}"
    using set_takeWhileD [of _ "\<lambda>c. c \<notin> set netloc_delims" "drop 2 v"] by blast
  with assms sv show ?thesis
    by (auto simp: urlparse_def splitnetloc_def Let_def split: if_splits)
qed

lemma urlparse_brackets:
  assumes "urlparse u = Inr r"
  shows "CHR ''['' \<in> set (netloc r) \<longleftrightarrow> CHR '']'' \<in> set (netloc r)"
proof -
  obtain s v where "split_scheme u = (s, v)" by (cases "split_scheme u")
  with assms show ?thesis
    by (auto simp: urlparse_def Let_def split: if_splits)
qed

lemma urlparse_prefixed:
  assumes "set n \<inter> set netloc_delims = {}"
  shows "urlparse (''//'' @ n) =
     (if (CHR ''['' \<in> set n \<and> CHR '']'' \<notin> set n) \<or> (CHR '']'' \<in> set n \<and> CHR ''['' \<notin> set n)
      then Inl (ValueError [''Invalid IPv6 URL''])
      else Inr \<lparr>scheme = [], netloc = n\<rparr>)"
proof -
  have tw: "takeWhile (\<lambda>c. c \<notin> set netloc_delims) n = n"
    using assms by (intro takeWhile_eq_all_conv [THEN iffD2]) auto
  show ?thesis
    using split_scheme_slash [of "CHR ''/'' # n"]
    by (simp add: urlparse_def splitnetloc_def tw)
qed

lemma hostinfo_alt:
  "hostinfo r =
     (let hi = after_userinfo (netloc r) in
      if CHR ''['' \<in> set hi then
        (takeWhile (\<lambda>x. x \<noteq> CHR '']'') (drop 1 (dropWhile (\<lambda>x. x \<noteq> CHR ''['') hi)),
         let p = drop 1 (dropWhile (\<lambda>x. x \<noteq> CHR '':'')
                   (drop 1 (dropWhile (\<lambda>x. x \<noteq> CHR '']'')
                      (drop 1 (dropWhile (\<lambda>x. x \<noteq> CHR ''['') hi)))))
         in if p = [] then None else Some p)
      else
        (takeWhile (\<lambda>x. x \<noteq> CHR '':'') hi,
         let p = drop 1 (dropWhile (\<lambda>x. x \<noteq> CHR '':'') hi)
         in if p = [] then None else Some p))"
proof -
  obtain u a where "str_rpartition CHR ''@'' (netloc r) = (u, a, after_userinfo (netloc r))"
    using str_rpartition_last [of "CHR ''@''" "netloc r"]
    by (cases "str_rpartition CHR ''@'' (netloc r)") (auto simp: after_userinfo_def)
  then show ?thesis
    by (simp add: hostinfo_def str_partition_alt Let_def)
qed

lemma after_userinfo_subset: "set (after_userinfo n) \<subseteq> set n"
  using set_takeWhile_subset [of "\<lambda>x. x \<noteq> CHR ''@''" "rev n"]
  by (simp add: after_userinfo_def)

lemma after_userinfo_no_at: "CHR ''@'' \<notin> set (after_userinfo n)"
  using set_takeWhileD [of "CHR ''@''" "\<lambda>x. x \<noteq> CHR ''@''" "rev n"]
  by (auto simp: after_userinfo_def)

lemma after_userinfo_id: "CHR ''@'' \<notin> set n \<Longrightarrow> after_userinfo n = n"
  by (simp add: after_userinfo_def takeWhile_neq_id)

lemma hostinfo_host_subset: "set (fst (hostinfo r)) \<subseteq> set (after_userinfo (netloc r))"
proof (cases "CHR ''['' \<in> set (after_userinfo (netloc r))")
  case True
  then have "fst (hostinfo r) = takeWhile (\<lambda>x. x \<noteq> CHR '']'')
      (drop 1 (dropWhile (\<lambda>x. x \<noteq> CHR ''['') (after_userinfo (netloc r))))"
    by (simp add: hostinfo_alt Let_def)
  then show ?thesis
    using set_takeWhile_subset set_drop_dropWhile_subset by (metis subset_trans)
next
  case False
  then have "fst (hostinfo r) = takeWhile (\<lambda>x. x \<noteq> CHR '':'') (after_userinfo (netloc r))"
    by (simp add: hostinfo_alt Let_def)
  then show ?thesis
    using set_takeWhile_subset by metis
qed

lemma hostinfo_host_brackets:
  "CHR ''['' \<in> set (fst (hostinfo r)) \<Longrightarrow> CHR '']'' \<notin> set (fst (hostinfo r))"
proof (cases "CHR ''['' \<in> set (after_userinfo (netloc r))")
  case True
  then show ?thesis
    using set_takeWhileD [of "CHR '']''" "\<lambda>x. x \<noteq> CHR '']''"]
    by (auto simp: hostinfo_alt Let_def)
next
  case False
  assume "CHR ''['' \<in> set (fst (hostinfo r))"
  with False hostinfo_host_subset [of r] show ?thesis by blast
qed

lemma hostname_special:
  assumes "hostname r = Some h" and "s \<in> set ''/?#@[]:''"
  shows "s \<in> set h \<longleftrightarrow> s \<in> set (fst (hostinfo r))"
proof -
  obtain a p z where apz: "str_partition CHR ''%'' (fst (hostinfo r)) = (a, p, z)"
    by (cases "str_partition CHR ''%'' (fst (hostinfo r))")
  then have "fst (hostinfo r) = a @ p @ z" by (rule str_partition_concat)
  moreover from assms(1) apz have "h = str_lower a @ p @ z"
    by (auto simp: hostname_def Let_def split: if_splits)
  ultimately show ?thesis
    using str_lower_special [OF assms(2), of a] by auto
qed

lemma hostname_chars_ok:
  assumes "urlparse u = Inr r"
  shows "host_chars_ok (str_of_optional (hostname r))"
proof (cases "hostname r")
  case None
  then show ?thesis by (simp add: host_chars_ok_def str_of_optional_def netloc_delims_def)
next
  case (Some h)
  have sub: "set (fst (hostinfo r)) \<subseteq> set (netloc r)"
    using hostinfo_host_subset [of r] after_userinfo_subset [of "netloc r"] by blast
  have d: "set (netloc r) \<inter> set netloc_delims = {}"
    by (rule urlparse_netloc_chars [OF assms])
  have "CHR ''/'' \<notin> set h" "CHR ''?'' \<notin> set h" "CHR ''#'' \<notin> set h"
    using hostname_special [OF Some] sub d by (auto simp: netloc_delims_def)
  moreover have "CHR ''@'' \<notin> set h"
    using hostname_special [OF Some, of "CHR ''@''"] hostinfo_host_subset [of r]
      after_userinfo_no_at [of "netloc r"] by auto
  moreover have "\<not> (CHR ''['' \<in> set h \<and> CHR '']'' \<in> set h)"
    using hostname_special [OF Some, of "CHR ''[''"] hostname_special [OF Some, of "CHR '']''"]
      hostinfo_host_brackets [of r] by auto
  ultimately show ?thesis
    using Some by (auto simp: host_chars_ok_def str_of_optional_def netloc_delims_def)
qed

lemma digits_value_chars:
  "digits_value acc s = Some n \<Longrightarrow> CHR '':'' \<notin> set s"
  by (induction acc s rule: digits_value.induct)
     (auto simp: is_digit_def split: if_splits list.splits)

lemma str_strip_keeps:
  assumes "c \<in> set s" and "\<not> is_space c"
  shows "c \<in> set (str_strip s)"
proof -
  have k: "\<And>xs. c \<in> set xs \<Longrightarrow> c \<in> set (dropWhile is_space xs)"
    using assms(2) by (metis (full_types) set_takeWhileD takeWhile_dropWhile_id set_append UnE)
  show ?thesis
    unfolding str_strip_def using k [OF assms(1)] k [of "rev (dropWhile is_space s)"]
    by simp
qed

lemma split_sign_keeps: "CHR '':'' \<in> set t \<Longrightarrow> CHR '':'' \<in> set (snd (split_sign t))"
  by (cases t) (auto simp: split_sign_def)

lemma int_base10_colon:
  assumes "CHR '':'' \<in> set s"
  shows "int_base10 s = None"
proof -
  obtain neg body where nb: "split_sign (str_strip s) = (neg, body)"
    by (cases "split_sign (str_strip s)")
  have "CHR '':'' \<in> set (str_strip s)"
    using assms by (rule str_strip_keeps) (simp add: is_space_def)
  from split_sign_keeps [OF this] nb have c: "CHR '':'' \<in> set body" by simp
  then have "digits_value 0 body = None"
    using digits_value_chars [of 0 body] by (cases "digits_value 0 body") auto
  with nb show ?thesis
    by (simp add: int_base10_def split: list.split)
qed

lemma int_base10_default: "int_base10 ''50051'' = Some 50051"
  by (simp add: int_base10_def str_strip_def is_space_def split_sign_def is_digit_def
      digit_val_def)

lemma port_netloc_cong: "netloc r = netloc r' \<Longrightarrow> port r = port r'"
  by (simp add: port_def hostinfo_def)

subsection \<open>The second pass of the resolver\<close>

lemma after_userinfo_ported:
  assumes "CHR ''@'' \<notin> set h"
  shows "after_userinfo (h @ '':50051'') = h @ '':50051''"
  using assms by (intro after_userinfo_id) simp

lemma takeWhile_ported:
  assumes "CHR '':'' \<in> set h"
  shows "takeWhile (\<lambda>x. x \<noteq> CHR '':'') (h @ '':50051'') = takeWhile (\<lambda>x. x \<noteq> CHR '':'') h"
  by (rule takeWhile_append1 [OF assms]) simp

lemma dropWhile_ported:
  assumes "CHR '':'' \<in> set h"
  shows "dropWhile (\<lambda>x. x \<noteq> CHR '':'') (h @ '':50051'') =
           dropWhile (\<lambda>x. x \<noteq> CHR '':'') h @ '':50051''"
  by (rule dropWhile_append1 [OF assms]) simp

lemma hostinfo_unbracketed:
  assumes "CHR ''@'' \<notin> set h" and b: "CHR ''['' \<notin> set (h @ '':50051'')"
  shows "hostinfo \<lparr>scheme = s, netloc = h @ '':50051''\<rparr> =
       (takeWhile (\<lambda>x. x \<noteq> CHR '':'') (h @ '':50051''),
         let p = drop 1 (dropWhile (\<lambda>x. x \<noteq> CHR '':'') (h @ '':50051''))
         in if p = [] then None else Some p)"
proof -
  have "after_userinfo (netloc \<lparr>scheme = s, netloc = h @ '':50051''\<rparr>) = h @ '':50051''"
    using after_userinfo_ported [OF assms(1)] by simp
  then show ?thesis
    using b by (subst hostinfo_alt) (simp only: Let_def if_False)
qed

lemma hostinfo_ported_colon:
  assumes "CHR ''@'' \<notin> set h" and "CHR ''['' \<notin> set h" and c: "CHR '':'' \<in> set h"
  shows "hostinfo \<lparr>scheme = s, netloc = h @ '':50051''\<rparr> =
           (takeWhile (\<lambda>x. x \<noteq> CHR '':'') h,
            Some (drop 1 (dropWhile (\<lambda>x. x \<noteq> CHR '':'') h) @ '':50051''))"
proof -
  have b: "CHR ''['' \<notin> set (h @ '':50051'')" using assms(2) by simp
  from dropWhile_neq_Cons [OF c]
  obtain t where dw: "dropWhile (\<lambda>x. x \<noteq> CHR '':'') h = CHR '':'' # t" ..
  show ?thesis
    unfolding hostinfo_unbracketed [OF assms(1) b, of s] takeWhile_ported [OF c]
      dropWhile_ported [OF c] dw
    by simp
qed

lemma hostinfo_ported_plain:
  assumes "CHR ''@'' \<notin> set h" and "CHR ''['' \<notin> set h" and c: "CHR '':'' \<notin> set h"
  shows "hostinfo \<lparr>scheme = s, netloc = h @ '':50051''\<rparr> = (h, Some ''50051'')"
proof -
  have b: "CHR ''['' \<notin> set (h @ '':50051'')" using assms(2) by simp
  have "takeWhile (\<lambda>x. x \<noteq> CHR '':'') (h @ '':50051'') = h"
    using c by (simp add: takeWhile_append takeWhile_neq_id)
  moreover have "dropWhile (\<lambda>x. x \<noteq> CHR '':'') (h @ '':50051'') = '':50051''"
    using c by (simp add: dropWhile_append dropWhile_neq_Nil)
  ultimately show ?thesis
    unfolding hostinfo_unbracketed [OF assms(1) b, of s] by simp
qed

lemma port_ported:
  assumes "CHR ''@'' \<notin> set h" and "CHR ''['' \<notin> set h"
  shows "port \<lparr>scheme = s, netloc = h @ '':50051''\<rparr> =
           (if CHR '':'' \<in> set h
            then Inl (ValueError [''Port could not be cast to integer value''])
            else Inr (Some 50051))"
proof (cases "CHR '':'' \<in> set h")
  case True
  have "int_base10 (drop 1 (dropWhile (\<lambda>x. x \<noteq> CHR '':'') h) @ '':50051'') = None"
    by (rule int_base10_colon) simp
  with True show ?thesis
    by (simp add: port_def hostinfo_ported_colon [OF assms True])
next
  case False
  then show ?thesis
    by (simp add: port_def hostinfo_ported_plain [OF assms False] int_base10_default)
qed

lemma second_pass:
  assumes "host_chars_ok h"
  shows "add_netloc_prefix (h @ '':50051'') = ''//'' @ h @ '':50051''"
    and "urlparse (''//'' @ h @ '':50051'') =
           (if CHR ''['' \<in> set h \<or> CHR '']'' \<in> set h
            then Inl (ValueError [''Invalid IPv6 URL''])
            else Inr \<lparr>scheme = [], netloc = h @ '':50051''\<rparr>)"
proof -
  from assms have d: "set (h @ '':50051'') \<inter> set netloc_delims = {}"
    by (auto simp: host_chars_ok_def netloc_delims_def)
  then have "\<not> str_contains ''//'' (h @ '':50051'')"
    using str_contains_slashes [of "h @ '':50051''"] by (auto simp: netloc_delims_def)
  then show "add_netloc_prefix (h @ '':50051'') = ''//'' @ h @ '':50051''"
    by (simp add: add_netloc_prefix_def netloc_prefix_def)
  from assms show "urlparse (''//'' @ h @ '':50051'') =
           (if CHR ''['' \<in> set h \<or> CHR '']'' \<in> set h
            then Inl (ValueError [''Invalid IPv6 URL''])
            else Inr \<lparr>scheme = [], netloc = h @ '':50051''\<rparr>)"
    using urlparse_prefixed [OF d] by (auto simp: host_chars_ok_def)
qed

lemma second_pass_has_port:
  assumes "urlparse u = Inr r"
  shows "\<not> needs_port (ported_target r)"
proof -
  let ?h = "str_of_optional (hostname r)"
  have ok: "host_chars_ok ?h" by (rule hostname_chars_ok [OF assms])
  have p: "ported_target r = ?h @ '':50051''"
    by (simp add: ported_target_def show_default_port)
  show ?thesis
  proof (cases "CHR ''['' \<in> set ?h \<or> CHR '']'' \<in> set ?h")
    case True
    then show ?thesis
      using second_pass [OF ok] by (simp add: needs_port_def p)
  next
    case False
    moreover from ok have "CHR ''@'' \<notin> set ?h" by (simp add: host_chars_ok_def)
    ultimately show ?thesis
      using second_pass [OF ok] port_ported [of ?h "[]"]
      by (simp add: needs_port_def p)
  qed
qed

text \<open>The measure is 1 for a target that takes the recursion and 0 for every other.\<close>

termination gen_target
proof (relation "measure (\<lambda>target. if needs_port target then 1 else 0)")
  show "wf (measure (\<lambda>target. if needs_port target then 1 else 0))" by simp
next
  fix target :: string and parsed_target :: split_result and x
  assume u: "urlparse (add_netloc_prefix target) = Inr parsed_target"
    and n: "netloc parsed_target \<noteq> []"
    and p: "port parsed_target = Inr x" "x = None"
  from u n p have "needs_port target" by (simp add: needs_port_def)
  moreover have "\<not> needs_port (ported_target parsed_target)"
    by (rule second_pass_has_port [OF u])
  ultimately show "(ported_target parsed_target, target)
      \<in> measure (\<lambda>target. if needs_port target then 1 else 0)"
    by simp
qed

declare gen_target.simps [simp del]

section \<open>Properties of the PathCompiler\<close>

lemma str_split_not_Nil: "str_split sep s \<noteq> []"
  by (induction s) (auto split: list.splits)

lemma xpath_fold_nest:
  "es \<noteq> [] \<Longrightarrow> \<exists>d. nest_containers es = JObj d \<and> d \<noteq> [] \<and>
     foldl xpath_step ([], True) (rev es) = (d, False)"
proof (induction es)
  case Nil
  then show ?case by simp
next
  case (Cons e es)
  show ?case
  proof (cases "es = []")
    case True
    then show ?thesis by simp
  next
    case False
    with Cons.IH obtain d where "nest_containers es = JObj d"
      and "foldl xpath_step ([], True) (rev es) = (d, False)"
      by blast
    then show ?thesis by simp
  qed
qed

lemma xpath_dict_of_split:
  assumes "str_split CHR ''/'' xpath = e # es"
  shows "xpath_dict_of xpath ns =
           (if e = ''namespace'' then [(''namespace'', JStr ns)]
            else [(e, nest_containers es), (''namespace'', JStr ns)])"
proof -
  have "e # es \<noteq> []" by simp
  from xpath_fold_nest [OF this] obtain d where
    d: "nest_containers (e # es) = JObj d"
    and f: "foldl xpath_step ([], True) (rev (e # es)) = (d, False)"
    by blast
  from d have "d = [(e, nest_containers es)]" by simp
  with f assms show ?thesis
    by (simp add: xpath_dict_of_def)
qed

lemma parse_xpath_to_json_split:
  assumes "ns \<noteq> []" and "str_split CHR ''/'' xpath = e # es"
  shows "parse_xpath_to_json xpath (Some ns) =
           Inr (json_dumps (JObj (if e = ''namespace'' then [(''namespace'', JStr ns)]
                                  else [(e, nest_containers es), (''namespace'', JStr ns)])))"
  using assms(1) xpath_dict_of_split [OF assms(2), of ns]
  by (simp add: parse_xpath_to_json_def)

lemma compiled_path_spec_split:
  assumes "str_split CHR ''/'' xpath = e # es"
  shows "compiled_path_spec xpath ns =
           JObj [(e, nest_containers es), (''namespace'', JStr ns)]"
  using assms by (simp add: compiled_path_spec_def)

text \<open>
  Claim C1, as amended. For every path and every non-empty namespace, the compiler splits the
  path on the slash and nests the elements: the last element of the split (an empty string
  where the path ends in a slash, since no element is stripped) maps to an empty object and
  every element before it has the mapping built so far as its sole value. Where the first
  element is not the literal \<open>namespace\<close>, the namespace entry stands beside the outermost
  container key, and the result is the serialisation of that two-entry object. Compiling
  \<open>a/b/c\<close> with the namespace \<open>ns1\<close> gives the text of the specification's example.
\<close>

theorem path_compiler_nesting:
  \<open>(ns \<noteq> [] \<and> str_split CHR ''/'' xpath = e # es \<and> e \<noteq> ''namespace'' \<longrightarrow>
      compiled_path_spec xpath ns = JObj [(e, nest_containers es), (''namespace'', JStr ns)] \<and>
      parse_xpath_to_json xpath (Some ns) = Inr (json_dumps (compiled_path_spec xpath ns))) \<and>
    parse_xpath_to_json ''a/b/c'' (Some ''ns1'') =
      Inr ''{"a": {"b": {"c": {}}}, "namespace": "ns1"}''\<close>
proof (intro conjI impI)
  assume a: "ns \<noteq> [] \<and> str_split CHR ''/'' xpath = e # es \<and> e \<noteq> ''namespace''"
  then show "compiled_path_spec xpath ns =
      JObj [(e, nest_containers es), (''namespace'', JStr ns)]"
    by (simp add: compiled_path_spec_split)
  from a show "parse_xpath_to_json xpath (Some ns) =
      Inr (json_dumps (compiled_path_spec xpath ns))"
    using parse_xpath_to_json_split [of ns xpath e es]
    by (simp add: compiled_path_spec_split)
next
  have s: "str_split CHR ''/'' ''a/b/c'' = [''a'', ''b'', ''c'']" by simp
  show \<open>parse_xpath_to_json ''a/b/c'' (Some ''ns1'') =
      Inr ''{"a": {"b": {"c": {}}}, "namespace": "ns1"}''\<close>
    using parse_xpath_to_json_split [OF _ s, of "''ns1''"]
    by (simp add: encode_str_def escape_char_def)
qed

theorem path_compiler_nesting_witness:
  \<open>''ns'' \<noteq> [] \<and> str_split CHR ''/'' ''System/bgp-items'' = [''System'', ''bgp-items''] \<and>
   ''System'' \<noteq> ''namespace'' \<and>
   parse_xpath_to_json ''System/bgp-items'' (Some ''ns'') =
     Inr ''{"System": {"bgp-items": {}}, "namespace": "ns"}''\<close>
  using path_compiler_nesting [of "''ns''" "''System/bgp-items''" "''System''" "[''bgp-items'']"]
  by (simp add: encode_str_def escape_char_def)

text \<open>
  Claim C1 as stated fails on two kinds of path. On the path \<open>namespace\<close> the namespace entry
  replaces the container entry instead of standing beside it, so the result differs from the
  object the specification describes. On the path \<open>a/\<close> the last non-empty element \<open>a\<close> maps
  to an object that is not empty: the empty element after the slash is kept.
\<close>

theorem path_compiler_nesting_counterexample:
  \<open>parse_xpath_to_json ''namespace'' (Some ''ns1'') = Inr ''{"namespace": "ns1"}'' \<and>
   parse_xpath_to_json ''namespace'' (Some ''ns1'') \<noteq>
     Inr (json_dumps (compiled_path_spec ''namespace'' ''ns1'')) \<and>
   parse_xpath_to_json ''a/'' (Some ''ns1'') = Inr ''{"a": {"": {}}, "namespace": "ns1"}''\<close>
  by (simp add: parse_xpath_to_json_def xpath_dict_of_def compiled_path_spec_def
      encode_str_def escape_char_def)

text \<open>
  Claim C2. For every path, the compiler raises the validation error exactly when the namespace
  is absent or empty; for every other namespace it returns the serialisation of an object,
  whatever the path is, the empty path included.
\<close>

theorem path_compiler_namespace_guard:
  "(parse_xpath_to_json xpath namespace =
      Inl (ValueError [''Must include namespace if constructing from xpath!''])) =
     (namespace = None \<or> namespace = Some []) \<and>
   (\<exists>e. parse_xpath_to_json xpath namespace = Inl e) =
     (namespace = None \<or> namespace = Some []) \<and>
   (\<exists>d. parse_xpath_to_json xpath namespace = Inr (json_dumps (JObj d))) =
     (\<not> (namespace = None \<or> namespace = Some []))"
  by (cases namespace) (auto simp: parse_xpath_to_json_def)

theorem path_compiler_namespace_guard_witness:
  \<open>(\<exists>e. parse_xpath_to_json ''a/b'' None = Inl e) \<and>
   (\<exists>e. parse_xpath_to_json ''a/b'' (Some []) = Inl e) \<and>
   \<not> (\<exists>e. parse_xpath_to_json [] (Some ''ns1'') = Inl e) \<and>
   (\<exists>d. parse_xpath_to_json [] (Some ''ns1'') = Inr (json_dumps (JObj d)))\<close>
  using path_compiler_namespace_guard [of "''a/b''" None]
    path_compiler_namespace_guard [of "''a/b''" "Some []"]
    path_compiler_namespace_guard [of "[]" "Some ''ns1''"]
  by simp

text \<open>
  Claim C10. For every path whose first slash-separated element is the literal \<open>namespace\<close>
  and every non-empty namespace, the injected entry overwrites the outermost container entry:
  the compiled object has the single key \<open>namespace\<close>, mapped to the namespace string, and
  the container hierarchy is absent from the output.
\<close>

theorem path_compiler_namespace_collision:
  "ns \<noteq> [] \<and> str_split CHR ''/'' xpath = ''namespace'' # es \<longrightarrow>
     parse_xpath_to_json xpath (Some ns) =
       Inr (json_dumps (JObj [(''namespace'', JStr ns)])) \<and>
     parse_xpath_to_json xpath (Some ns) =
       Inr (''{'' @ encode_str ''namespace'' @ '': '' @ encode_str ns @ ''}'')"
  using parse_xpath_to_json_split [of ns xpath "''namespace''" es] by simp

theorem path_compiler_namespace_collision_witness:
  \<open>''ns1'' \<noteq> [] \<and> str_split CHR ''/'' ''namespace/a/b'' = ''namespace'' # [''a'', ''b''] \<and>
   parse_xpath_to_json ''namespace/a/b'' (Some ''ns1'') =
     Inr (json_dumps (JObj [(''namespace'', JStr ''ns1'')])) \<and>
   parse_xpath_to_json ''namespace/a/b'' (Some ''ns1'') = Inr ''{"namespace": "ns1"}''\<close>
  using path_compiler_namespace_collision [of "''ns1''" "''namespace/a/b''" "[''a'', ''b'']"]
  by (simp add: encode_str_def escape_char_def)

section \<open>Properties of the ArgValidator\<close>

text \<open>
  Claim C8. For every candidate and every allowed set, the validator returns without effect
  exactly when the candidate is a member of the set, and raises a validation error with a
  non-empty message for every other candidate: the caller's message when one is given, the
  text naming the candidate and the allowed values otherwise. Membership is equality of
  strings, so \<open>Running\<close> is rejected where only \<open>running\<close> is allowed.
\<close>

theorem validate_enum_arg_membership:
  "(validate_enum_arg name valid_options message = Inr ()) = (name \<in> set valid_options) \<and>
   (\<exists>m. m \<noteq> [] \<and> validate_enum_arg name valid_options message = Inl (ValueError [m])) =
     (name \<notin> set valid_options) \<and>
   validate_enum_arg ''Running'' [''running''] None =
     Inl (ValueError [''Running must be one of running''])"
  by (auto simp: validate_enum_arg_def split: option.splits)

theorem validate_enum_arg_membership_witness:
  "validate_enum_arg ''stop'' [''roll-back'', ''stop'', ''continue''] None = Inr () \<and>
   validate_enum_arg ''Stop'' [''roll-back'', ''stop'', ''continue''] None \<noteq> Inr () \<and>
   (\<exists>m. m \<noteq> [] \<and> validate_enum_arg ''Stop'' [''roll-back'', ''stop'', ''continue''] None =
      Inl (ValueError [m]))"
  using validate_enum_arg_membership [of "''stop''" "[''roll-back'', ''stop'', ''continue'']" None]
    validate_enum_arg_membership [of "''Stop''" "[''roll-back'', ''stop'', ''continue'']" None]
  by simp

section \<open>Properties of the TargetResolver\<close>

lemma gen_target_with_port:
  assumes "urlparse (add_netloc_prefix target) = Inr r"
    and "netloc r \<noteq> []" and "port r = Inr (Some n)"
  shows "gen_target target = Inr (netloc r)"
  using assms by (subst gen_target.simps) simp

lemma gen_target_without_port:
  assumes "urlparse (add_netloc_prefix target) = Inr r"
    and "netloc r \<noteq> []" and "port r = Inr None"
  shows "gen_target target = gen_target (ported_target r)"
  using assms by (subst gen_target.simps) simp

lemma gen_target_netloc_fixed:
  assumes "urlparse u = Inr r" and "netloc r \<noteq> []" and "port r = Inr (Some n)"
  shows "gen_target (netloc r) = Inr (netloc r)"
proof -
  have d: "set (netloc r) \<inter> set netloc_delims = {}"
    by (rule urlparse_netloc_chars [OF assms(1)])
  then have "\<not> str_contains ''//'' (netloc r)"
    using str_contains_slashes [of "netloc r"] by (auto simp: netloc_delims_def)
  then have a: "add_netloc_prefix (netloc r) = ''//'' @ netloc r"
    by (simp add: add_netloc_prefix_def netloc_prefix_def)
  have u: "urlparse (''//'' @ netloc r) = Inr \<lparr>scheme = [], netloc = netloc r\<rparr>"
    using urlparse_prefixed [OF d] urlparse_brackets [OF assms(1)] by simp
  have p: "port \<lparr>scheme = [], netloc = netloc r\<rparr> = Inr (Some n)"
    using port_netloc_cong [of "\<lparr>scheme = [], netloc = netloc r\<rparr>" r] assms(3) by simp
  show ?thesis
    using gen_target_with_port [of "netloc r" "\<lparr>scheme = [], netloc = netloc r\<rparr>" n]
      a u p assms(2) by simp
qed

lemma gen_target_ported:
  assumes "host_chars_ok h"
  shows "gen_target (h @ '':50051'') =
           (if CHR ''['' \<in> set h \<or> CHR '']'' \<in> set h
            then Inl (ValueError [''Invalid IPv6 URL''])
            else if CHR '':'' \<in> set h
            then Inl (ValueError [''Port could not be cast to integer value''])
            else Inr (h @ '':50051''))"
proof (cases "CHR ''['' \<in> set h \<or> CHR '']'' \<in> set h")
  case True
  then show ?thesis
    using second_pass [OF assms] by (subst gen_target.simps) simp
next
  case False
  moreover from assms have "CHR ''@'' \<notin> set h" by (simp add: host_chars_ok_def)
  ultimately show ?thesis
    using second_pass [OF assms] port_ported [of h "[]"]
    by (subst gen_target.simps) simp
qed

lemma str_split_colon:
  "CHR '':'' \<notin> set h \<Longrightarrow> str_split CHR '':'' (h @ '':50051'') = [h, ''50051'']"
  by (induction h) auto

lemma gen_target_plain_host:
  assumes b: "host \<noteq> [] \<and> set host \<inter> set ''/?#@[]:%'' = {}"
  shows "gen_target host = Inr (str_lower host @ '':50051'')"
proof -
  from b have d: "set host \<inter> set netloc_delims = {}" by (auto simp: netloc_delims_def)
  then have "\<not> str_contains ''//'' host"
    using str_contains_slashes [of host] by (auto simp: netloc_delims_def)
  then have pre: "add_netloc_prefix host = ''//'' @ host"
    by (simp add: add_netloc_prefix_def netloc_prefix_def)
  let ?r = "\<lparr>scheme = [], netloc = host\<rparr>"
  have u: "urlparse (''//'' @ host) = Inr ?r"
    using urlparse_prefixed [OF d] b by auto
  have hi: "hostinfo ?r = (host, None)"
    using b by (simp add: hostinfo_alt after_userinfo_id takeWhile_neq_id dropWhile_neq_Nil)
  have hn: "hostname ?r = Some (str_lower host)"
    using b by (simp add: hostname_def hi str_partition_alt takeWhile_neq_id dropWhile_neq_Nil)
  have po: "port ?r = Inr None" by (simp add: port_def hi)
  have "gen_target host = gen_target (ported_target ?r)"
    using pre u po b by (intro gen_target_without_port) auto
  also have "ported_target ?r = str_lower host @ '':50051''"
    by (simp add: ported_target_def hn str_of_optional_def show_default_port)
  also have "gen_target (str_lower host @ '':50051'') = Inr (str_lower host @ '':50051'')"
  proof -
    have s: "\<And>c. c \<in> set ''/?#@[]:'' \<Longrightarrow> c \<notin> set (str_lower host)"
      using b str_lower_special [of _ host] by auto
    then have "host_chars_ok (str_lower host)"
      by (simp add: host_chars_ok_def netloc_delims_def)
    from gen_target_ported [OF this] s show ?thesis by simp
  qed
  finally show ?thesis .
qed

lemma gen_target_example: "gen_target ''127.0.0.1'' = Inr ''127.0.0.1:50051''"
proof -
  have "str_lower ''127.0.0.1'' = ''127.0.0.1''"
    by (simp add: str_lower_def lower_char_def)
  with gen_target_plain_host [of "''127.0.0.1''"] show ?thesis by simp
qed

lemma gen_target_ipv6_literal:
  "gen_target ''[::1]'' = Inl (ValueError [''Port could not be cast to integer value''])"
proof -
  have u: "urlparse (add_netloc_prefix ''[::1]'') = Inr \<lparr>scheme = [], netloc = ''[::1]''\<rparr>"
    by code_simp
  have p: "port \<lparr>scheme = [], netloc = ''[::1]''\<rparr> = Inr None"
    by code_simp
  have h: "hostname \<lparr>scheme = [], netloc = ''[::1]''\<rparr> = Some ''::1''"
    by code_simp
  have t: "ported_target \<lparr>scheme = [], netloc = ''[::1]''\<rparr> = ''::1'' @ '':50051''"
    by (simp add: ported_target_def h str_of_optional_def show_default_port)
  have "host_chars_ok ''::1''"
    by (simp add: host_chars_ok_def netloc_delims_def)
  from gen_target_ported [OF this]
  have "gen_target (''::1'' @ '':50051'') =
      Inl (ValueError [''Port could not be cast to integer value''])"
    by simp
  with gen_target_without_port [OF u _ p] t show ?thesis by simp
qed

text \<open>
  Claim C3. A valid host string without a port is a target that the resolver accepts and whose
  parsed authority has no port. For every such target the result is the host name followed by
  one colon and the default port: splitting the result on the colon gives exactly the host name
  and \<open>50051\<close>. The resolver obtains it by reassembling the host name with the default port
  and resolving that string: the second pass parses it to the same authority with the port
  50051 and so returns without a further pass. Every non-empty string free of the characters
  \<^verbatim>\<open>/?#@[]:%\<close> is such a target, and resolves to its lower-case form with the default
  port.
\<close>

theorem gen_target_default_port:
  "(urlparse (add_netloc_prefix target) = Inr parsed_target \<and> port parsed_target = Inr None \<and>
    gen_target target = Inr resolved \<longrightarrow>
      (let h = str_of_optional (hostname parsed_target) in
         resolved = h @ '':50051'' \<and>
         str_split CHR '':'' resolved = [h, show_int default_port] \<and>
         gen_target target = gen_target (ported_target parsed_target) \<and>
         ported_target parsed_target = resolved \<and>
         urlparse (add_netloc_prefix resolved) = Inr \<lparr>scheme = [], netloc = resolved\<rparr> \<and>
         port \<lparr>scheme = [], netloc = resolved\<rparr> = Inr (Some default_port))) \<and>
   (host \<noteq> [] \<and> set host \<inter> set ''/?#@[]:%'' = {} \<longrightarrow>
      gen_target host = Inr (str_lower host @ '':50051''))"
proof (intro conjI impI)
  assume a: "urlparse (add_netloc_prefix target) = Inr parsed_target \<and>
    port parsed_target = Inr None \<and> gen_target target = Inr resolved"
  let ?h = "str_of_optional (hostname parsed_target)"
  have ok: "host_chars_ok ?h" using a by (intro hostname_chars_ok) blast
  have pt: "ported_target parsed_target = ?h @ '':50051''"
    by (simp add: ported_target_def show_default_port)
  from a have ne: "netloc parsed_target \<noteq> []"
    by (subst (asm) gen_target.simps) (auto split: if_splits)
  from a ne have g: "gen_target target = gen_target (ported_target parsed_target)"
    by (intro gen_target_without_port) auto
  with a pt have r: "gen_target (?h @ '':50051'') = Inr resolved" by simp
  then have nb: "\<not> (CHR ''['' \<in> set ?h \<or> CHR '']'' \<in> set ?h)"
    and nc: "CHR '':'' \<notin> set ?h" and res: "resolved = ?h @ '':50051''"
    using gen_target_ported [OF ok] by (auto split: if_splits)
  from ok have at: "CHR ''@'' \<notin> set ?h" by (simp add: host_chars_ok_def)
  show "let h = str_of_optional (hostname parsed_target) in
         resolved = h @ '':50051'' \<and>
         str_split CHR '':'' resolved = [h, show_int default_port] \<and>
         gen_target target = gen_target (ported_target parsed_target) \<and>
         ported_target parsed_target = resolved \<and>
         urlparse (add_netloc_prefix resolved) = Inr \<lparr>scheme = [], netloc = resolved\<rparr> \<and>
         port \<lparr>scheme = [], netloc = resolved\<rparr> = Inr (Some default_port)"
    unfolding Let_def
  proof (intro conjI)
    show "resolved = ?h @ '':50051''" by (rule res)
    show "str_split CHR '':'' resolved = [?h, show_int default_port]"
      using str_split_colon [OF nc] by (simp add: res show_default_port)
    show "gen_target target = gen_target (ported_target parsed_target)" by (rule g)
    show "ported_target parsed_target = resolved" by (simp add: pt res)
    show "urlparse (add_netloc_prefix resolved) = Inr \<lparr>scheme = [], netloc = resolved\<rparr>"
      using second_pass [OF ok] nb by (simp add: res)
    show "port \<lparr>scheme = [], netloc = resolved\<rparr> = Inr (Some default_port)"
      using port_ported [of ?h "[]"] at nb nc by (simp add: res default_port_def)
  qed
next
  assume "host \<noteq> [] \<and> set host \<inter> set ''/?#@[]:%'' = {}"
  then show "gen_target host = Inr (str_lower host @ '':50051'')"
    by (rule gen_target_plain_host)
qed

theorem gen_target_default_port_witness:
  "urlparse (add_netloc_prefix ''Switch-1.Example.com'') =
     Inr \<lparr>scheme = [], netloc = ''Switch-1.Example.com''\<rparr> \<and>
   port \<lparr>scheme = [], netloc = ''Switch-1.Example.com''\<rparr> = Inr None \<and>
   gen_target ''Switch-1.Example.com'' = Inr ''switch-1.example.com:50051'' \<and>
   str_split CHR '':'' ''switch-1.example.com:50051'' = [''switch-1.example.com'', ''50051''] \<and>
   port \<lparr>scheme = [], netloc = ''switch-1.example.com:50051''\<rparr> = Inr (Some 50051)"
proof -
  have u: "urlparse (add_netloc_prefix ''Switch-1.Example.com'') =
     Inr \<lparr>scheme = [], netloc = ''Switch-1.Example.com''\<rparr>"
    by code_simp
  have p: "port \<lparr>scheme = [], netloc = ''Switch-1.Example.com''\<rparr> = Inr None"
    by code_simp
  have l: "str_lower ''Switch-1.Example.com'' = ''switch-1.example.com''"
    by code_simp
  have h: "hostname \<lparr>scheme = [], netloc = ''Switch-1.Example.com''\<rparr> = Some ''switch-1.example.com''"
    by code_simp
  have g: "gen_target ''Switch-1.Example.com'' = Inr ''switch-1.example.com:50051''"
    using gen_target_default_port [of _ _ _ "''Switch-1.Example.com''"] l by simp
  have "let h = str_of_optional
            (hostname \<lparr>scheme = [], netloc = ''Switch-1.Example.com''\<rparr>) in
          ''switch-1.example.com:50051'' = h @ '':50051'' \<and>
          str_split CHR '':'' ''switch-1.example.com:50051'' = [h, show_int default_port] \<and>
          gen_target ''Switch-1.Example.com'' =
            gen_target (ported_target \<lparr>scheme = [], netloc = ''Switch-1.Example.com''\<rparr>) \<and>
          ported_target \<lparr>scheme = [], netloc = ''Switch-1.Example.com''\<rparr> =
            ''switch-1.example.com:50051'' \<and>
          urlparse (add_netloc_prefix ''switch-1.example.com:50051'') =
            Inr \<lparr>scheme = [], netloc = ''switch-1.example.com:50051''\<rparr> \<and>
          port \<lparr>scheme = [], netloc = ''switch-1.example.com:50051''\<rparr> =
            Inr (Some default_port)"
    by (rule gen_target_default_port [THEN conjunct1, THEN mp, OF conjI [OF u conjI [OF p g]]])
  then have "str_split CHR '':'' ''switch-1.example.com:50051'' =
        [''switch-1.example.com'', ''50051''] \<and>
      port \<lparr>scheme = [], netloc = ''switch-1.example.com:50051''\<rparr> = Inr (Some 50051)"
    unfolding Let_def h show_default_port show_default_port [unfolded default_port_def]
      default_port_def str_of_optional_def option.case
    by blast
  with u p g show ?thesis by blast
qed


text \<open>
  Claim C4. Whenever the resolver accepts a target, it maps its own result to itself. In
  particular, a target whose parsed authority is not empty and holds a port is accepted, the
  result is that authority, and resolving the result gives the same string again.
\<close>

theorem gen_target_idempotent:
  "(gen_target target = Inr resolved \<longrightarrow> gen_target resolved = Inr resolved) \<and>
   (urlparse (add_netloc_prefix target) = Inr parsed_target \<and> netloc parsed_target \<noteq> [] \<and>
    port parsed_target = Inr (Some n) \<longrightarrow>
      gen_target target = Inr (netloc parsed_target) \<and>
      gen_target (netloc parsed_target) = gen_target target)"
proof (intro conjI impI)
  assume a: "gen_target target = Inr resolved"
  then obtain r where u: "urlparse (add_netloc_prefix target) = Inr r" and ne: "netloc r \<noteq> []"
    by (subst (asm) gen_target.simps) (auto split: sum.splits if_splits)
  show "gen_target resolved = Inr resolved"
  proof (cases "port r")
    case (Inl e)
    with a u ne show ?thesis by (subst (asm) gen_target.simps) simp
  next
    case (Inr po)
    show ?thesis
    proof (cases po)
      case None
      let ?h = "str_of_optional (hostname r)"
      have ok: "host_chars_ok ?h" by (rule hostname_chars_ok [OF u])
      have "gen_target target = gen_target (ported_target r)"
        using u ne Inr None by (intro gen_target_without_port) auto
      with a have "gen_target (?h @ '':50051'') = Inr resolved"
        by (simp add: ported_target_def show_default_port)
      then show ?thesis
        using gen_target_ported [OF ok] by (auto split: if_splits)
    next
      case (Some n')
      with a u ne Inr have "resolved = netloc r"
        using gen_target_with_port [OF u ne] by simp
      then show ?thesis
        using gen_target_netloc_fixed [OF u ne] Inr Some by simp
    qed
  qed
next
  assume b: "urlparse (add_netloc_prefix target) = Inr parsed_target \<and>
    netloc parsed_target \<noteq> [] \<and> port parsed_target = Inr (Some n)"
  then show "gen_target target = Inr (netloc parsed_target)"
    by (intro gen_target_with_port) auto
  with b show "gen_target (netloc parsed_target) = gen_target target"
    using gen_target_netloc_fixed [of "add_netloc_prefix target" parsed_target n] by simp
qed


theorem gen_target_idempotent_witness:
  "urlparse (add_netloc_prefix ''grpc://admin@Switch-1:57400/path'') =
     Inr \<lparr>scheme = ''grpc'', netloc = ''admin@Switch-1:57400''\<rparr> \<and>
   port \<lparr>scheme = ''grpc'', netloc = ''admin@Switch-1:57400''\<rparr> = Inr (Some 57400) \<and>
   gen_target ''grpc://admin@Switch-1:57400/path'' = Inr ''admin@Switch-1:57400'' \<and>
   gen_target ''admin@Switch-1:57400'' = Inr ''admin@Switch-1:57400''"
proof -
  let ?r = "\<lparr>scheme = ''grpc'', netloc = ''admin@Switch-1:57400''\<rparr>"
  have u: "urlparse (add_netloc_prefix ''grpc://admin@Switch-1:57400/path'') = Inr ?r"
    by code_simp
  have p: "port ?r = Inr (Some 57400)"
    by (simp add: port_def hostinfo_def str_rpartition_def str_partition_def int_base10_def
        str_strip_def is_space_def split_sign_def is_digit_def digit_val_def)
  have n: "netloc ?r \<noteq> []" by simp
  have "gen_target ''grpc://admin@Switch-1:57400/path'' = Inr (netloc ?r) \<and>
      gen_target (netloc ?r) = gen_target ''grpc://admin@Switch-1:57400/path''"
    by (rule gen_target_idempotent [THEN conjunct2, THEN mp, OF conjI [OF u conjI [OF n p]]])
  then have "gen_target ''grpc://admin@Switch-1:57400/path'' = Inr ''admin@Switch-1:57400'' \<and>
      gen_target ''admin@Switch-1:57400'' = Inr ''admin@Switch-1:57400''"
    unfolding split_result.select_convs by (elim conjE) (simp only:)
  with u p show ?thesis by (intro conjI) (elim conjE, assumption)+
qed

section \<open>Properties of the constructor\<close>

lemma init_Inr:
  assumes "init fs target username password timeout credentials credentials_from_file
             tls_server_override = Inr self"
  shows "\<exists>resolved creds.
           gen_target target = Inr resolved \<and>
           gen_credentials fs credentials (or_default credentials_from_file False) = Inr creds \<and>
           self = \<lparr>self_username = username, self_password = password,
                    self_timeout = or_default timeout C_MAX_LONG,
                    self_target = resolved, self_credentials = creds,
                    self_options = gen_options tls_server_override,
                    self_client = gen_client resolved creds
                                    (Some (gen_options tls_server_override))\<rparr>"
proof (cases "gen_target target")
  case (Inl e)
  with assms show ?thesis by (simp add: init_def)
next
  case resolved: (Inr resolved)
  show ?thesis
  proof (cases "gen_credentials fs credentials (or_default credentials_from_file False)")
    case (Inl e)
    with assms resolved show ?thesis by (simp add: init_def)
  next
    case (Inr creds)
    with assms resolved show ?thesis by (simp add: init_def)
  qed
qed

text \<open>
  Claim C5, as amended. For every successfully constructed client, the stored timeout is the
  timeout argument as it was supplied: a non-negative integer whenever the argument is one,
  with no upper bound enforced. It is exactly 2147483647 when no timeout argument is supplied.
\<close>

theorem init_timeout_stored:
  "init fs target username password timeout credentials credentials_from_file
       tls_server_override = Inr self \<longrightarrow>
     self_timeout self = or_default timeout C_MAX_LONG \<and>
     (timeout = None \<longrightarrow> self_timeout self = 2147483647) \<and>
     (\<forall>t. timeout = Some t \<longrightarrow> self_timeout self = t \<and> (0 \<le> t \<longrightarrow> 0 \<le> self_timeout self))"
proof
  assume "init fs target username password timeout credentials credentials_from_file
       tls_server_override = Inr self"
  from init_Inr [OF this] obtain resolved creds where
    "self = \<lparr>self_username = username, self_password = password,
              self_timeout = or_default timeout C_MAX_LONG,
              self_target = resolved, self_credentials = creds,
              self_options = gen_options tls_server_override,
              self_client = gen_client resolved creds
                              (Some (gen_options tls_server_override))\<rparr>"
    by blast
  then have "self_timeout self = or_default timeout C_MAX_LONG"
    by simp
  then show "self_timeout self = or_default timeout C_MAX_LONG \<and>
     (timeout = None \<longrightarrow> self_timeout self = 2147483647) \<and>
     (\<forall>t. timeout = Some t \<longrightarrow> self_timeout self = t \<and> (0 \<le> t \<longrightarrow> 0 \<le> self_timeout self))"
    by (simp add: or_default_def C_MAX_LONG_def)
qed

theorem init_timeout_stored_witness:
  "init Map.empty ''127.0.0.1'' ''demo'' ''demo'' None None None None =
     Inr \<lparr>self_username = ''demo'', self_password = ''demo'', self_timeout = 2147483647,
          self_target = ''127.0.0.1:50051'', self_credentials = None, self_options = [],
          self_client = gRPCConfigOperStub (insecure_channel ''127.0.0.1:50051'')\<rparr> \<and>
   self_timeout
     \<lparr>self_username = ''demo'', self_password = ''demo'', self_timeout = 2147483647,
      self_target = ''127.0.0.1:50051'', self_credentials = None, self_options = [],
      self_client = gRPCConfigOperStub (insecure_channel ''127.0.0.1:50051'')\<rparr> = 2147483647 \<and>
   init Map.empty ''127.0.0.1'' ''demo'' ''demo'' (Some 30) None None None =
     Inr \<lparr>self_username = ''demo'', self_password = ''demo'', self_timeout = 30,
          self_target = ''127.0.0.1:50051'', self_credentials = None, self_options = [],
          self_client = gRPCConfigOperStub (insecure_channel ''127.0.0.1:50051'')\<rparr> \<and>
   (0 :: int) \<le> self_timeout
     \<lparr>self_username = ''demo'', self_password = ''demo'', self_timeout = 30,
      self_target = ''127.0.0.1:50051'', self_credentials = None, self_options = [],
      self_client = gRPCConfigOperStub (insecure_channel ''127.0.0.1:50051'')\<rparr>"
proof -
  have i: "init Map.empty ''127.0.0.1'' ''demo'' ''demo'' None None None None =
     Inr \<lparr>self_username = ''demo'', self_password = ''demo'', self_timeout = 2147483647,
          self_target = ''127.0.0.1:50051'', self_credentials = None, self_options = [],
          self_client = gRPCConfigOperStub (insecure_channel ''127.0.0.1:50051'')\<rparr>"
    by (simp add: init_def gen_target_example gen_credentials_def gen_options_def
        gen_client_def or_default_def C_MAX_LONG_def)
  have j: "init Map.empty ''127.0.0.1'' ''demo'' ''demo'' (Some 30) None None None =
     Inr \<lparr>self_username = ''demo'', self_password = ''demo'', self_timeout = 30,
          self_target = ''127.0.0.1:50051'', self_credentials = None, self_options = [],
          self_client = gRPCConfigOperStub (insecure_channel ''127.0.0.1:50051'')\<rparr>"
    by (simp add: init_def gen_target_example gen_credentials_def gen_options_def
        gen_client_def or_default_def)
  from init_timeout_stored [THEN mp, OF i] init_timeout_stored [THEN mp, OF j] i j
  show ?thesis by simp
qed

text \<open>
  Claim C5 as stated fails: a client constructed with the timeout 2147483648 stores that
  value, which lies above the 32-bit signed maximum.
\<close>

theorem init_timeout_stored_counterexample:
  "map_sum id self_timeout
     (init Map.empty ''127.0.0.1'' ''demo'' ''demo'' (Some 2147483648) None None None) =
     Inr 2147483648 \<and>
   \<not> ((2147483648 :: int) \<le> 2147483647)"
  by (simp add: init_def gen_target_example gen_credentials_def gen_options_def
      gen_client_def or_default_def)

text \<open>
  Claim C6. The resolved credentials alone decide the transport: the stub is bound to an
  insecure channel at the target exactly when they are absent or empty, and otherwise to a
  secure channel at the target, built from the TLS channel credentials of the bytes and from
  the options. The constructor hands the factory the resolved target, the bytes the
  CredentialLoader returned and the options list, so every constructed client is in one of
  the two modes.
\<close>

theorem gen_client_transport:
  "(gen_client target credentials options = gRPCConfigOperStub (insecure_channel target)) =
     (credentials = None \<or> credentials = Some []) \<and>
   (\<forall>creds. credentials = Some creds \<and> creds \<noteq> [] \<longrightarrow>
      gen_client target credentials options =
        gRPCConfigOperStub (secure_channel target (ssl_channel_credentials creds) options)) \<and>
   (init fs given_target username password timeout given_credentials credentials_from_file
        tls_server_override = Inr self \<longrightarrow>
      gen_credentials fs given_credentials (or_default credentials_from_file False) =
        Inr (self_credentials self) \<and>
      self_options self = gen_options tls_server_override \<and>
      self_client self =
        gen_client (self_target self) (self_credentials self) (Some (self_options self)))"
proof (intro conjI impI allI)
  show "(gen_client target credentials options = gRPCConfigOperStub (insecure_channel target)) =
     (credentials = None \<or> credentials = Some [])"
    by (auto simp: gen_client_def split: option.splits)
next
  fix creds
  assume "credentials = Some creds \<and> creds \<noteq> []"
  then show "gen_client target credentials options =
        gRPCConfigOperStub (secure_channel target (ssl_channel_credentials creds) options)"
    by (simp add: gen_client_def)
next
  assume a: "init fs given_target username password timeout given_credentials
      credentials_from_file tls_server_override = Inr self"
  from init_Inr [OF a] obtain resolved creds where
    c: "gen_credentials fs given_credentials (or_default credentials_from_file False) =
          Inr creds"
    and s: "self = \<lparr>self_username = username, self_password = password,
              self_timeout = or_default timeout C_MAX_LONG,
              self_target = resolved, self_credentials = creds,
              self_options = gen_options tls_server_override,
              self_client = gen_client resolved creds
                              (Some (gen_options tls_server_override))\<rparr>"
    by blast
  from c s
  show "gen_credentials fs given_credentials (or_default credentials_from_file False) =
        Inr (self_credentials self)"
    by simp
  from s show "self_options self = gen_options tls_server_override"
    by simp
  from s show "self_client self =
        gen_client (self_target self) (self_credentials self) (Some (self_options self))"
    by simp
qed

theorem gen_client_transport_witness:
  "gen_client ''127.0.0.1:50051'' None (Some []) =
     gRPCConfigOperStub (insecure_channel ''127.0.0.1:50051'') \<and>
   gen_client ''127.0.0.1:50051'' (Some ''PEM'') (Some []) =
     gRPCConfigOperStub
       (secure_channel ''127.0.0.1:50051'' (ssl_channel_credentials ''PEM'') (Some [])) \<and>
   gen_client ''127.0.0.1:50051'' (Some ''PEM'') (Some []) \<noteq>
     gRPCConfigOperStub (insecure_channel ''127.0.0.1:50051'') \<and>
   init [''ca.pem'' \<mapsto> ''PEM''] ''127.0.0.1'' ''demo'' ''demo'' None (Some ''ca.pem'')
       (Some True) (Some ''nxos'') =
     Inr \<lparr>self_username = ''demo'', self_password = ''demo'', self_timeout = 2147483647,
          self_target = ''127.0.0.1:50051'', self_credentials = Some ''PEM'',
          self_options = [(''grpc.ssl_target_name_override'', ''nxos'')],
          self_client = gRPCConfigOperStub
            (secure_channel ''127.0.0.1:50051'' (ssl_channel_credentials ''PEM'')
               (Some [(''grpc.ssl_target_name_override'', ''nxos'')]))\<rparr>"
proof -
  let ?self = "\<lparr>self_username = ''demo'', self_password = ''demo'', self_timeout = 2147483647,
          self_target = ''127.0.0.1:50051'', self_credentials = Some ''PEM'',
          self_options = [(''grpc.ssl_target_name_override'', ''nxos'')],
          self_client = gen_client ''127.0.0.1:50051'' (Some ''PEM'')
               (Some [(''grpc.ssl_target_name_override'', ''nxos'')])\<rparr>"
  have i: "init [''ca.pem'' \<mapsto> ''PEM''] ''127.0.0.1'' ''demo'' ''demo'' None (Some ''ca.pem'')
       (Some True) (Some ''nxos'') = Inr ?self"
    by (simp add: init_def gen_target_example gen_credentials_def gen_options_def
        or_default_def C_MAX_LONG_def)
  have s: "gen_client ''127.0.0.1:50051'' (Some ''PEM'')
               (Some [(''grpc.ssl_target_name_override'', ''nxos'')]) =
      gRPCConfigOperStub
            (secure_channel ''127.0.0.1:50051'' (ssl_channel_credentials ''PEM'')
               (Some [(''grpc.ssl_target_name_override'', ''nxos'')]))"
    using gen_client_transport [of "''127.0.0.1:50051''" "Some ''PEM''"
        "Some [(''grpc.ssl_target_name_override'', ''nxos'')]"]
    by simp
  show ?thesis
    using gen_client_transport [of "''127.0.0.1:50051''" None "Some []"]
      gen_client_transport [of "''127.0.0.1:50051''" "Some ''PEM''" "Some []"] i s
    by simp
qed

section \<open>Properties of the dispatch\<close>

lemma fulfill_request_contract:
  "fulfill_request ext self request_method request_args calls =
     dispatch_contract ext self request_method request_args calls"
  by (simp add: fulfill_request_def dispatch_contract_def gen_metadata_def Let_def
      split: sum.split)

lemma edit_config_cases:
  "edit_config ext self yang_path operation default_operation session_id request_id target
       error_operation calls =
     (let op = or_default operation ''merge'';
          dop = or_default default_operation ''merge'';
          tgt = or_default target ''running'';
          eop = or_default error_operation ''roll-back''
      in if op \<in> set operation_options \<and> dop \<in> set default_operation_options \<and>
            tgt \<in> set target_options \<and> eop \<in> set error_operation_options
         then fulfill_request ext self EditConfig
                (EditConfigArgs yang_path op (or_default session_id 0) (or_default request_id 0)
                   tgt dop eop) calls
         else (Inl (ValueError
                 [if op \<notin> set operation_options
                  then op @ '' must be one of '' @ str_join '', '' operation_options
                  else if dop \<notin> set default_operation_options
                  then dop @ '' must be one of '' @ str_join '', '' default_operation_options
                  else if tgt \<notin> set target_options
                  then tgt @ '' must be one of '' @ str_join '', '' target_options
                  else eop @ '' must be one of '' @ str_join '', '' error_operation_options]),
               calls))"
  by (simp add: edit_config_def validate_enum_arg_def Let_def)

lemma fulfill_request_calls:
  "snd (fulfill_request ext self request_method request_args calls) =
     calls @ [\<lparr>call_stub = self_client self, call_method = request_method,
               call_args = request_args, call_timeout = self_timeout self,
               call_metadata = gen_metadata self\<rparr>]"
  by (simp add: fulfill_request_def Let_def split: sum.split)

text \<open>
  Claim C7. Whenever the operation, the default operation, the target or the error operation
  of a call to \<^verbatim>\<open>edit_config\<close> lies outside its allowed set, the call raises a
  validation error and the list of invocations that reached the transport is unchanged: the
  dispatcher is not entered. Conversely, whenever the call does reach the transport, all four
  values lie in their sets, and the single invocation added carries exactly these values.
\<close>

theorem edit_config_validates_first:
  "(or_default operation ''merge'' \<notin> {''merge'', ''create'', ''replace'', ''delete'', ''remove''} \<or>
    or_default default_operation ''merge'' \<notin> {''merge'', ''replace'', ''none''} \<or>
    or_default target ''running'' \<notin> {''running''} \<or>
    or_default error_operation ''roll-back'' \<notin> {''roll-back'', ''stop'', ''continue''} \<longrightarrow>
      (\<exists>m. edit_config ext self yang_path operation default_operation session_id request_id
              target error_operation calls = (Inl (ValueError [m]), calls))) \<and>
   (snd (edit_config ext self yang_path operation default_operation session_id request_id
           target error_operation calls) \<noteq> calls \<longrightarrow>
      or_default operation ''merge'' \<in> {''merge'', ''create'', ''replace'', ''delete'', ''remove''} \<and>
      or_default default_operation ''merge'' \<in> {''merge'', ''replace'', ''none''} \<and>
      or_default target ''running'' \<in> {''running''} \<and>
      or_default error_operation ''roll-back'' \<in> {''roll-back'', ''stop'', ''continue''} \<and>
      snd (edit_config ext self yang_path operation default_operation session_id request_id
             target error_operation calls) =
        calls @ [\<lparr>call_stub = self_client self, call_method = EditConfig,
                  call_args = EditConfigArgs yang_path (or_default operation ''merge'')
                    (or_default session_id 0) (or_default request_id 0)
                    (or_default target ''running'') (or_default default_operation ''merge'')
                    (or_default error_operation ''roll-back''),
                  call_timeout = self_timeout self,
                  call_metadata = gen_metadata self\<rparr>])"
proof -
  let ?valid = "or_default operation ''merge'' \<in> set operation_options \<and>
      or_default default_operation ''merge'' \<in> set default_operation_options \<and>
      or_default target ''running'' \<in> set target_options \<and>
      or_default error_operation ''roll-back'' \<in> set error_operation_options"
  have sets: "set operation_options = {''merge'', ''create'', ''replace'', ''delete'', ''remove''}"
    "set default_operation_options = {''merge'', ''replace'', ''none''}"
    "set target_options = {''running''}"
    "set error_operation_options = {''roll-back'', ''stop'', ''continue''}"
    by (simp_all add: operation_options_def default_operation_options_def target_options_def
        error_operation_options_def)
  show ?thesis
  proof (cases ?valid)
    case True
    then have "edit_config ext self yang_path operation default_operation session_id request_id
        target error_operation calls =
      fulfill_request ext self EditConfig
        (EditConfigArgs yang_path (or_default operation ''merge'')
           (or_default session_id 0) (or_default request_id 0)
           (or_default target ''running'') (or_default default_operation ''merge'')
           (or_default error_operation ''roll-back'')) calls"
      by (simp add: edit_config_cases Let_def)
    with True show ?thesis
      unfolding sets by (simp only: fulfill_request_calls) blast
  next
    case False
    then have "\<exists>m. edit_config ext self yang_path operation default_operation session_id
        request_id target error_operation calls = (Inl (ValueError [m]), calls)"
      unfolding edit_config_cases Let_def by (simp only: if_False) blast
    with False show ?thesis
      unfolding sets by auto
  qed
qed

theorem edit_config_validates_first_witness:
  "or_default (Some ''Merge'') ''merge'' \<notin> {''merge'', ''create'', ''replace'', ''delete'', ''remove''} \<and>
   (\<exists>m. edit_config \<lparr>rpc = \<lambda>calls call. Inr (0 :: nat), build_response = \<lambda>req_id reply. req_id\<rparr>
            \<lparr>self_username = ''demo'', self_password = ''demo'', self_timeout = 2147483647,
             self_target = ''127.0.0.1:50051'', self_credentials = None, self_options = [],
             self_client = gRPCConfigOperStub (insecure_channel ''127.0.0.1:50051'')\<rparr>
            ''{}'' (Some ''Merge'') None None None None None [] =
          (Inl (ValueError [m]), [])) \<and>
   snd (edit_config \<lparr>rpc = \<lambda>calls call. Inr (0 :: nat), build_response = \<lambda>req_id reply. req_id\<rparr>
          \<lparr>self_username = ''demo'', self_password = ''demo'', self_timeout = 2147483647,
           self_target = ''127.0.0.1:50051'', self_credentials = None, self_options = [],
           self_client = gRPCConfigOperStub (insecure_channel ''127.0.0.1:50051'')\<rparr>
          ''{}'' (Some ''replace'') None None (Some 7) None (Some ''stop'') []) =
     [\<lparr>call_stub = gRPCConfigOperStub (insecure_channel ''127.0.0.1:50051''),
       call_method = EditConfig,
       call_args = EditConfigArgs ''{}'' ''replace'' 0 7 ''running'' ''merge'' ''stop'',
       call_timeout = 2147483647,
       call_metadata = [(''username'', ''demo''), (''password'', ''demo'')]\<rparr>]"
proof -
  let ?ext = "\<lparr>rpc = \<lambda>calls call. Inr (0 :: nat), build_response = \<lambda>req_id reply. req_id\<rparr>"
  let ?self = "\<lparr>self_username = ''demo'', self_password = ''demo'', self_timeout = 2147483647,
          self_target = ''127.0.0.1:50051'', self_credentials = None, self_options = [],
          self_client = gRPCConfigOperStub (insecure_channel ''127.0.0.1:50051'')\<rparr>"
  have r: "snd (edit_config ?ext ?self ''{}'' (Some ''replace'') None None (Some 7) None
      (Some ''stop'') []) \<noteq> []"
    by (simp add: edit_config_cases Let_def or_default_def fulfill_request_calls
        operation_options_def default_operation_options_def target_options_def
        error_operation_options_def)
  have a: "\<exists>m. edit_config ?ext ?self ''{}'' (Some ''Merge'') None None None None None [] =
          (Inl (ValueError [m]), [])"
    using edit_config_validates_first
      [where operation = "Some ''Merge''" and default_operation = None and target = None
         and error_operation = None and ext = ?ext and self = ?self and yang_path = "''{}''"
         and session_id = None and request_id = None and calls = "[]"]
    by (simp add: or_default_def)
  have b: "snd (edit_config ?ext ?self ''{}'' (Some ''replace'') None None (Some 7) None
      (Some ''stop'') []) =
     [\<lparr>call_stub = gRPCConfigOperStub (insecure_channel ''127.0.0.1:50051''),
       call_method = EditConfig,
       call_args = EditConfigArgs ''{}'' ''replace'' 0 7 ''running'' ''merge'' ''stop'',
       call_timeout = 2147483647,
       call_metadata = [(''username'', ''demo''), (''password'', ''demo'')]\<rparr>]"
    using edit_config_validates_first
      [where operation = "Some ''replace''" and default_operation = None and target = None
         and error_operation = "Some ''stop''" and ext = ?ext and self = ?self
         and yang_path = "''{}''" and session_id = None and request_id = "Some 7"
         and calls = "[]"] r
    by (simp add: or_default_def gen_metadata_def)
  from a b show ?thesis by (simp add: or_default_def)
qed

lemma payload_of_compiled:
  "parse_xpath_to_json yang_path namespace = Inr payload \<Longrightarrow>
     payload_of yang_path namespace (or_default None False) = Inr payload"
  by (simp add: payload_of_def or_default_def)

text \<open>
  Claim C9. The dispatcher invokes the method it is given with the timeout stored in the
  client and with the metadata list of the user name pair and the password pair, hands the
  request identifier of the arguments and the raw reply to the response builder, and returns
  the builder's result as it is. Every public operation that passes its own checks is one
  such dispatch, of its own method and of arguments whose request identifier is the one the
  caller supplied, or 0 when the caller supplied none. For \<^verbatim>\<open>get_oper\<close> on a path and a
  namespace that compile, the payload of the dispatched arguments is the output of the
  PathCompiler.
\<close>

theorem dispatch_uniform:
  "fulfill_request ext self request_method request_args calls =
     dispatch_contract ext self request_method request_args calls \<and>
   get_oper ext self yang_path namespace request_id path_is_payload calls =
     (case payload_of yang_path namespace (or_default path_is_payload False) of
        Inl e \<Rightarrow> (Inl e, calls)
      | Inr payload \<Rightarrow>
          dispatch_contract ext self GetOper
            (GetOperArgs (or_default request_id 0) payload) calls) \<and>
   get ext self yang_path namespace request_id path_is_payload calls =
     (case payload_of yang_path namespace (or_default path_is_payload False) of
        Inl e \<Rightarrow> (Inl e, calls)
      | Inr payload \<Rightarrow>
          dispatch_contract ext self Get (GetArgs (or_default request_id 0) payload) calls) \<and>
   (or_default source ''running'' = ''running'' \<longrightarrow>
      get_config ext self yang_path namespace request_id source path_is_payload calls =
        (case payload_of yang_path namespace (or_default path_is_payload False) of
           Inl e \<Rightarrow> (Inl e, calls)
         | Inr payload \<Rightarrow>
             dispatch_contract ext self GetConfig
               (GetConfigArgs (or_default request_id 0) ''running'' payload) calls)) \<and>
   (or_default operation ''merge'' \<in> {''merge'', ''create'', ''replace'', ''delete'', ''remove''} \<and>
    or_default default_operation ''merge'' \<in> {''merge'', ''replace'', ''none''} \<and>
    or_default target ''running'' \<in> {''running''} \<and>
    or_default error_operation ''roll-back'' \<in> {''roll-back'', ''stop'', ''continue''} \<longrightarrow>
      edit_config ext self yang_path operation default_operation session_id request_id target
          error_operation calls =
        dispatch_contract ext self EditConfig
          (EditConfigArgs yang_path (or_default operation ''merge'') (or_default session_id 0)
             (or_default request_id 0) (or_default target ''running'')
             (or_default default_operation ''merge'')
             (or_default error_operation ''roll-back'')) calls) \<and>
   start_session ext self request_id calls =
     dispatch_contract ext self StartSession (SessionArgs (or_default request_id 0)) calls \<and>
   close_session ext self sid request_id calls =
     dispatch_contract ext self CloseSession
       (CloseSessionArgs (or_default request_id 0) sid) calls \<and>
   kill_session ext self sid sid_to_kill request_id calls =
     dispatch_contract ext self KillSession
       (KillArgs (or_default request_id 0) sid sid_to_kill) calls \<and>
   ReqID (GetOperArgs (or_default request_id 0) compiled) = or_default request_id 0 \<and>
   ReqID (GetArgs (or_default request_id 0) compiled) = or_default request_id 0 \<and>
   ReqID (GetConfigArgs (or_default request_id 0) ''running'' compiled) =
     or_default request_id 0 \<and>
   ReqID (EditConfigArgs yang_path (or_default operation ''merge'') (or_default session_id 0)
            (or_default request_id 0) (or_default target ''running'')
            (or_default default_operation ''merge'')
            (or_default error_operation ''roll-back'')) = or_default request_id 0 \<and>
   ReqID (SessionArgs (or_default request_id 0)) = or_default request_id 0 \<and>
   ReqID (CloseSessionArgs (or_default request_id 0) sid) = or_default request_id 0 \<and>
   ReqID (KillArgs (or_default request_id 0) sid sid_to_kill) = or_default request_id 0 \<and>
   or_default None (0 :: int) = 0 \<and>
   (parse_xpath_to_json yang_path namespace = Inr compiled \<longrightarrow>
      get_oper ext self yang_path namespace request_id None calls =
        dispatch_contract ext self GetOper
          (GetOperArgs (or_default request_id 0) compiled) calls \<and>
      YangPath (GetOperArgs (or_default request_id 0) compiled) = Some compiled)"
proof -
  have sets: "set operation_options = {''merge'', ''create'', ''replace'', ''delete'', ''remove''}"
    "set default_operation_options = {''merge'', ''replace'', ''none''}"
    "set target_options = {''running''}"
    "set error_operation_options = {''roll-back'', ''stop'', ''continue''}"
    by (simp_all add: operation_options_def default_operation_options_def target_options_def
        error_operation_options_def)
  have g1: "get_oper ext self yang_path namespace request_id path_is_payload calls =
     (case payload_of yang_path namespace (or_default path_is_payload False) of
        Inl e \<Rightarrow> (Inl e, calls)
      | Inr payload \<Rightarrow>
          dispatch_contract ext self GetOper
            (GetOperArgs (or_default request_id 0) payload) calls)"
    for path_is_payload
    by (simp add: get_oper_def fulfill_request_contract split: sum.split)
  have g2: "get ext self yang_path namespace request_id path_is_payload calls =
     (case payload_of yang_path namespace (or_default path_is_payload False) of
        Inl e \<Rightarrow> (Inl e, calls)
      | Inr payload \<Rightarrow>
          dispatch_contract ext self Get (GetArgs (or_default request_id 0) payload) calls)"
    by (simp add: get_def fulfill_request_contract split: sum.split)
  have g3: "or_default source ''running'' = ''running'' \<longrightarrow>
      get_config ext self yang_path namespace request_id source path_is_payload calls =
        (case payload_of yang_path namespace (or_default path_is_payload False) of
           Inl e \<Rightarrow> (Inl e, calls)
         | Inr payload \<Rightarrow>
             dispatch_contract ext self GetConfig
               (GetConfigArgs (or_default request_id 0) ''running'' payload) calls)"
    by (simp add: get_config_def validate_enum_arg_def fulfill_request_contract
        split: sum.split)
  have g4: "or_default operation ''merge'' \<in> {''merge'', ''create'', ''replace'', ''delete'', ''remove''} \<and>
    or_default default_operation ''merge'' \<in> {''merge'', ''replace'', ''none''} \<and>
    or_default target ''running'' \<in> {''running''} \<and>
    or_default error_operation ''roll-back'' \<in> {''roll-back'', ''stop'', ''continue''} \<longrightarrow>
      edit_config ext self yang_path operation default_operation session_id request_id target
          error_operation calls =
        dispatch_contract ext self EditConfig
          (EditConfigArgs yang_path (or_default operation ''merge'') (or_default session_id 0)
             (or_default request_id 0) (or_default target ''running'')
             (or_default default_operation ''merge'')
             (or_default error_operation ''roll-back'')) calls"
    unfolding sets [symmetric] edit_config_cases Let_def fulfill_request_contract
    by (rule impI) (simp only: if_True simp_thms)
  have g5: "start_session ext self request_id calls =
     dispatch_contract ext self StartSession (SessionArgs (or_default request_id 0)) calls"
    "close_session ext self sid request_id calls =
     dispatch_contract ext self CloseSession
       (CloseSessionArgs (or_default request_id 0) sid) calls"
    "kill_session ext self sid sid_to_kill request_id calls =
     dispatch_contract ext self KillSession
       (KillArgs (or_default request_id 0) sid sid_to_kill) calls"
    by (simp_all add: start_session_def close_session_def kill_session_def
        fulfill_request_contract)
  have g6: "parse_xpath_to_json yang_path namespace = Inr compiled \<longrightarrow>
      get_oper ext self yang_path namespace request_id None calls =
        dispatch_contract ext self GetOper
          (GetOperArgs (or_default request_id 0) compiled) calls \<and>
      YangPath (GetOperArgs (or_default request_id 0) compiled) = Some compiled"
    using payload_of_compiled [of yang_path namespace compiled]
    by (simp add: g1)
  have g7: "or_default None (0 :: int) = 0" by (simp add: or_default_def)
  show ?thesis
    by (intro conjI fulfill_request_contract g1 g2 g3 g4 g5 g6 g7 ReqID.simps)
qed

theorem dispatch_uniform_witness:
  \<open>parse_xpath_to_json ''Cisco-NX-OS-device:System'' (Some ''http://example/ns'') =
     Inr ''{"Cisco-NX-OS-device:System": {}, "namespace": "http://example/ns"}'' \<and>
   get_oper \<lparr>rpc = \<lambda>calls call. Inr ''reply'', build_response = \<lambda>req_id reply. (req_id, reply)\<rparr>
     \<lparr>self_username = ''demo'', self_password = ''secret'', self_timeout = 2147483647,
      self_target = ''127.0.0.1:50051'', self_credentials = None, self_options = [],
      self_client = gRPCConfigOperStub (insecure_channel ''127.0.0.1:50051'')\<rparr>
     ''Cisco-NX-OS-device:System'' (Some ''http://example/ns'') None None [] =
     (Inr (0, ''reply''),
      [\<lparr>call_stub = gRPCConfigOperStub (insecure_channel ''127.0.0.1:50051''),
        call_method = GetOper,
        call_args = GetOperArgs 0
          ''{"Cisco-NX-OS-device:System": {}, "namespace": "http://example/ns"}'',
        call_timeout = 2147483647,
        call_metadata = [(''username'', ''demo''), (''password'', ''secret'')]\<rparr>]) \<and>
   get_config \<lparr>rpc = \<lambda>calls call. Inr ''reply'', build_response = \<lambda>req_id reply. (req_id, reply)\<rparr>
     \<lparr>self_username = ''demo'', self_password = ''secret'', self_timeout = 30,
      self_target = ''127.0.0.1:50051'', self_credentials = None, self_options = [],
      self_client = gRPCConfigOperStub (insecure_channel ''127.0.0.1:50051'')\<rparr>
     ''{}'' None (Some 5) None (Some True) [] =
     (Inr (5, ''reply''),
      [\<lparr>call_stub = gRPCConfigOperStub (insecure_channel ''127.0.0.1:50051''),
        call_method = GetConfig, call_args = GetConfigArgs 5 ''running'' ''{}'',
        call_timeout = 30,
        call_metadata = [(''username'', ''demo''), (''password'', ''secret'')]\<rparr>]) \<and>
   edit_config \<lparr>rpc = \<lambda>calls call. Inl (RpcError ''deadline exceeded''),
                 build_response = \<lambda>req_id reply. (req_id, reply :: string)\<rparr>
     \<lparr>self_username = ''demo'', self_password = ''secret'', self_timeout = 30,
      self_target = ''127.0.0.1:50051'', self_credentials = None, self_options = [],
      self_client = gRPCConfigOperStub (insecure_channel ''127.0.0.1:50051'')\<rparr>
     ''{}'' None None None None None None [] =
     (Inl (RpcError ''deadline exceeded''),
      [\<lparr>call_stub = gRPCConfigOperStub (insecure_channel ''127.0.0.1:50051''),
        call_method = EditConfig,
        call_args = EditConfigArgs ''{}'' ''merge'' 0 0 ''running'' ''merge'' ''roll-back'',
        call_timeout = 30,
        call_metadata = [(''username'', ''demo''), (''password'', ''secret'')]\<rparr>])\<close>
proof -
  have s: "str_split CHR ''/'' ''Cisco-NX-OS-device:System'' = [''Cisco-NX-OS-device:System'']"
    by simp
  have c: \<open>parse_xpath_to_json ''Cisco-NX-OS-device:System'' (Some ''http://example/ns'') =
     Inr ''{"Cisco-NX-OS-device:System": {}, "namespace": "http://example/ns"}''\<close>
    using parse_xpath_to_json_split [OF _ s, of "''http://example/ns''"]
    by (simp add: encode_str_def escape_char_def)
  let ?ext = "\<lparr>rpc = \<lambda>calls call. Inr ''reply'',
                build_response = \<lambda>req_id reply. (req_id :: int, reply)\<rparr>"
  let ?ext' = "\<lparr>rpc = \<lambda>calls call. Inl (RpcError ''deadline exceeded''),
                 build_response = \<lambda>req_id reply. (req_id :: int, reply :: string)\<rparr>"
  let ?self = "\<lparr>self_username = ''demo'', self_password = ''secret'', self_timeout = 2147483647,
      self_target = ''127.0.0.1:50051'', self_credentials = None, self_options = [],
      self_client = gRPCConfigOperStub (insecure_channel ''127.0.0.1:50051'')\<rparr>"
  let ?self' = "\<lparr>self_username = ''demo'', self_password = ''secret'', self_timeout = 30,
      self_target = ''127.0.0.1:50051'', self_credentials = None, self_options = [],
      self_client = gRPCConfigOperStub (insecure_channel ''127.0.0.1:50051'')\<rparr>"
  let ?payload = \<open>''{"Cisco-NX-OS-device:System": {}, "namespace": "http://example/ns"}''\<close>
  have "get_oper ?ext ?self ''Cisco-NX-OS-device:System'' (Some ''http://example/ns'') None None [] =
      dispatch_contract ?ext ?self GetOper (GetOperArgs (or_default None 0) ?payload) []"
    using dispatch_uniform [where ext = ?ext and self = ?self and calls = "[]"
        and yang_path = "''Cisco-NX-OS-device:System''"
        and namespace = "Some ''http://example/ns''" and request_id = None
        and compiled = ?payload] c
    by blast
  then have g1: "get_oper ?ext ?self ''Cisco-NX-OS-device:System'' (Some ''http://example/ns'')
      None None [] =
     (Inr (0, ''reply''),
      [\<lparr>call_stub = gRPCConfigOperStub (insecure_channel ''127.0.0.1:50051''),
        call_method = GetOper, call_args = GetOperArgs 0 ?payload,
        call_timeout = 2147483647,
        call_metadata = [(''username'', ''demo''), (''password'', ''secret'')]\<rparr>])"
    by (simp add: dispatch_contract_def or_default_def)
  have g2: "get_config ?ext ?self' ''{}'' None (Some 5) None (Some True) [] =
     (Inr (5, ''reply''),
      [\<lparr>call_stub = gRPCConfigOperStub (insecure_channel ''127.0.0.1:50051''),
        call_method = GetConfig, call_args = GetConfigArgs 5 ''running'' ''{}'',
        call_timeout = 30,
        call_metadata = [(''username'', ''demo''), (''password'', ''secret'')]\<rparr>])"
    using dispatch_uniform [where ext = ?ext and self = ?self' and calls = "[]"
        and yang_path = "''{}''" and namespace = None and request_id = "Some 5"
        and source = None and path_is_payload = "Some True"]
    by (simp add: dispatch_contract_def or_default_def payload_of_def)
  have g3: "edit_config ?ext' ?self' ''{}'' None None None None None None [] =
     (Inl (RpcError ''deadline exceeded''),
      [\<lparr>call_stub = gRPCConfigOperStub (insecure_channel ''127.0.0.1:50051''),
        call_method = EditConfig,
        call_args = EditConfigArgs ''{}'' ''merge'' 0 0 ''running'' ''merge'' ''roll-back'',
        call_timeout = 30,
        call_metadata = [(''username'', ''demo''), (''password'', ''secret'')]\<rparr>])"
    using dispatch_uniform [where ext = ?ext' and self = ?self' and calls = "[]"
        and yang_path = "''{}''" and request_id = None and operation = None
        and default_operation = None and target = None and error_operation = None
        and session_id = None]
    by (simp add: dispatch_contract_def or_default_def)
  from c g1 g2 g3 show ?thesis by (intro conjI)
qed

end
